theory Spec2Isabelle
  imports Complex_Main "HOL-Library.AList"
begin

section \<open>Python values used by the pipeline\<close>

text \<open>
  The development embeds \<^verbatim>\<open>latentsync/pipelines/lipsync_pipeline.py\<close>
  (class \<^verbatim>\<open>LipsyncPipeline\<close>). Every raise of the source is a value of
  \<open>error\<close>; a function that can raise returns \<open>error + 'a\<close>.
\<close>

datatype error =
    AssertionError
  | ValueError
  | ZeroDivisionError
  | RuntimeError
  | IndexError
  | FileNotFoundError
  | TypeError
  | CollaboratorError

text \<open>\<^verbatim>\<open>x or d\<close> on an optional integer: \<^verbatim>\<open>None\<close> and \<^verbatim>\<open>0\<close> are falsy.\<close>

definition py_or :: "int option \<Rightarrow> int \<Rightarrow> int" where
  "py_or x d = (case x of None \<Rightarrow> d | Some v \<Rightarrow> if v = 0 then d else v)"

text \<open>\<^verbatim>\<open>int(r)\<close> on a float truncates towards zero.\<close>

definition py_int :: "real \<Rightarrow> int" where
  "py_int r = (if 0 \<le> r then \<lfloor>r\<rfloor> else \<lceil>r\<rceil>)"

text \<open>
  \<^verbatim>\<open>xs[a:b]\<close>: a negative bound counts from the end, and both bounds are clamped
  into \<open>[0, len(xs)]\<close>; an empty range gives the empty list, never an error.
\<close>

definition py_bound :: "int \<Rightarrow> int \<Rightarrow> nat" where
  "py_bound n a =
     (let a' = (if a < 0 then a + n else a)
      in if a' < 0 then 0 else if n < a' then nat n else nat a')"

definition py_slice :: "'a list \<Rightarrow> int \<Rightarrow> int \<Rightarrow> 'a list" where
  "py_slice xs a b =
     (let n = int (length xs); s = py_bound n a; e = py_bound n b
      in take (e - s) (drop s xs))"

text \<open>\<^verbatim>\<open>xs[i]\<close> for \<open>i\<close> from \<^verbatim>\<open>enumerate\<close>: IndexError out of range.\<close>

definition py_get :: "'a list \<Rightarrow> nat \<Rightarrow> error + 'a" where
  "py_get xs i = (if i < length xs then Inr (xs ! i) else Inl IndexError)"

text \<open>\<^verbatim>\<open>range(n)\<close>: empty for \<open>n \<le> 0\<close>.\<close>

definition py_range :: "int \<Rightarrow> nat list" where
  "py_range n = [0..<nat n]"

text \<open>The \<^verbatim>\<open>callback_steps\<close> argument: \<^verbatim>\<open>None\<close>, an \<^verbatim>\<open>int\<close>, or a value
  of any other type.\<close>

datatype cb_steps = CbNone | CbInt int | CbOther

section \<open>Tensors\<close>

text \<open>
  A tensor is its shape and its values in row-major order. Values are exact reals: the
  rounding of \<^verbatim>\<open>float16\<close> arithmetic and the device a tensor lives on are not
  modelled. A tensor with the layout \<^verbatim>\<open>f c h w\<close> (a video) is the list of its
  frames, each of shape \<open>[c, h, w]\<close>; one with the layout \<^verbatim>\<open>b c f h w\<close> (a
  latent) is the list over the batch of the list over the frames of \<open>[c, h, w]\<close>
  tensors. With this representation \<^verbatim>\<open>rearrange(x, "b c f h w -> (b f) c h w")\<close>
  is \<open>concat\<close>, \<^verbatim>\<open>rearrange(x, "f c h w -> 1 c f h w")\<close> is \<open>[x]\<close>, \<^verbatim>\<open>torch.cat\<close>
  along dimension 0 is \<open>@\<close>, and a slice along the frame dimension is a slice of
  the inner lists.
\<close>

datatype tensor = Tensor (shape: "nat list") (vals: "real list")

type_synonym video = "tensor list"
type_synonym latent = "tensor list list"

text \<open>A \<^verbatim>\<open>uint8\<close> image (a numpy array): shape and pixel values.\<close>

datatype frame = Frame (fshape: "nat list") (pixels: "nat list")

definition tmap :: "(real \<Rightarrow> real) \<Rightarrow> tensor \<Rightarrow> tensor" where
  "tmap f t = Tensor (shape t) (map f (vals t))"

definition tmap2 :: "(real \<Rightarrow> real \<Rightarrow> real) \<Rightarrow> tensor \<Rightarrow> tensor \<Rightarrow> tensor" where
  "tmap2 f t u = Tensor (shape t) (map2 f (vals t) (vals u))"

definition vmap :: "(real \<Rightarrow> real) \<Rightarrow> video \<Rightarrow> video" where
  "vmap f v = map (tmap f) v"

definition vmap2 :: "(real \<Rightarrow> real \<Rightarrow> real) \<Rightarrow> video \<Rightarrow> video \<Rightarrow> video" where
  "vmap2 f v v' = map2 (tmap2 f) v v'"

definition lmap :: "(real \<Rightarrow> real) \<Rightarrow> latent \<Rightarrow> latent" where
  "lmap f l = map (vmap f) l"

definition lmap2 :: "(real \<Rightarrow> real \<Rightarrow> real) \<Rightarrow> latent \<Rightarrow> latent \<Rightarrow> latent" where
  "lmap2 f l l' = map2 (vmap2 f) l l'"

text \<open>
  Elementwise operations on two tensors. The halves of one prediction that the
  guidance recombines have one shape, and so have a latent and the prediction the
  scheduler subtracts from it in the small installation below: \<open>tmap2\<close>,
  \<open>vmap2\<close> and \<open>lmap2\<close> combine operands of one shape, and \<open>same_shape\<close> says
  that two operands are. The operands of the composite of a chunk have different
  shapes (a mask has one channel, an image three); the broadcasting torch does there
  is modelled further down.
\<close>

definition same_shape :: "tensor \<Rightarrow> tensor \<Rightarrow> bool" where
  "same_shape t u = (shape t = shape u \<and> length (vals t) = length (vals u))"

definition vsame_shape :: "video \<Rightarrow> video \<Rightarrow> bool" where
  "vsame_shape v v' = (length v = length v' \<and> list_all2 same_shape v v')"

definition lsame_shape :: "latent \<Rightarrow> latent \<Rightarrow> bool" where
  "lsame_shape l l' = (length l = length l' \<and> list_all2 vsame_shape l l')"

text \<open>\<^verbatim>\<open>torch.zeros_like\<close>.\<close>

definition zeros_like :: "video \<Rightarrow> video" where
  "zeros_like v = vmap (\<lambda>_. 0) v"

text \<open>\<^verbatim>\<open>torch.stack\<close>: the list must be non-empty and its tensors of one shape.\<close>

definition stack :: "tensor list \<Rightarrow> error + video" where
  "stack ts =
     (case ts of
        [] \<Rightarrow> Inl RuntimeError
      | t # _ \<Rightarrow> if list_all (same_shape t) ts then Inr ts else Inl RuntimeError)"

text \<open>\<^verbatim>\<open>torch.cat\<close> of a list of videos along dimension 0: the list must be
  non-empty.\<close>

definition cat_videos :: "video list \<Rightarrow> error + video" where
  "cat_videos vs = (if vs = [] then Inl RuntimeError else Inr (concat vs))"

text \<open>\<^verbatim>\<open>torch.cat(..., dim=1)\<close> on latents: along the channels. The operands agree
  in every other dimension.\<close>

definition chan_compatible :: "tensor \<Rightarrow> tensor \<Rightarrow> bool" where
  "chan_compatible t u = (shape t \<noteq> [] \<and> shape u \<noteq> [] \<and> tl (shape t) = tl (shape u))"

definition tcat :: "tensor \<Rightarrow> tensor \<Rightarrow> tensor" where
  "tcat t u = Tensor ((hd (shape t) + hd (shape u)) # tl (shape t)) (vals t @ vals u)"

definition lchan_compatible :: "latent \<Rightarrow> latent \<Rightarrow> bool" where
  "lchan_compatible l l' =
     (length l = length l' \<and>
      list_all2 (\<lambda>v v'. length v = length v' \<and> list_all2 chan_compatible v v') l l')"

definition lcat :: "latent \<Rightarrow> latent \<Rightarrow> latent" where
  "lcat l l' = map2 (map2 tcat) l l'"

definition cat_channels :: "latent list \<Rightarrow> error + latent" where
  "cat_channels ls =
     (case ls of
        [] \<Rightarrow> Inl RuntimeError
      | l # rest \<Rightarrow>
          if list_all (lchan_compatible l) rest then Inr (foldl lcat l rest)
          else Inl RuntimeError)"

text \<open>\<^verbatim>\<open>x[:, :, a:b]\<close> on a latent: the frames \<open>a..b-1\<close> of every batch element.\<close>

definition slice_frames :: "latent \<Rightarrow> int \<Rightarrow> int \<Rightarrow> latent" where
  "slice_frames l a b = map (\<lambda>fs. py_slice fs a b) l"

text \<open>\<^verbatim>\<open>x.chunk(2)\<close> unpacked into two names: \<^verbatim>\<open>chunk\<close> cuts dimension 0 into
  pieces of \<open>\<lceil>n / 2\<rceil>\<close>, and the unpacking needs exactly two pieces.\<close>

definition chunk2 :: "'a list \<Rightarrow> error + ('a list \<times> 'a list)" where
  "chunk2 xs =
     (let k = (length xs + 1) div 2
      in if length xs < 2 then Inl ValueError else Inr (take k xs, drop k xs))"

subsection \<open>Broadcasting\<close>

text \<open>
  An elementwise operation of torch on two tensors of different shapes broadcasts:
  two dimensions go together when they are equal or one of them is 1, the result has
  the larger of the two, and an operand is read at index 0 along a dimension where it
  has size 1. Shapes that do not go together are a RuntimeError. The operands of a
  video operation have the layout \<^verbatim>\<open>f c h w\<close>, so their frames have one rank; the
  frame dimension is the list and broadcasts in the same way.

  \<open>indices s\<close> lists the multi-indices of a tensor of shape \<open>s\<close> in row-major
  order, \<open>flat_index s idx\<close> is the position in the row-major values that a tensor
  of shape \<open>s\<close> is read at for the multi-index \<open>idx\<close> of a possibly larger shape,
  and \<open>tensor_at t idx\<close> is the value read there.
\<close>

definition broadcast_shapes :: "nat list \<Rightarrow> nat list \<Rightarrow> nat list option" where
  "broadcast_shapes s s' =
     (if list_all2 (\<lambda>d e. d = e \<or> d = 1 \<or> e = 1) s s'
      then Some (map2 (\<lambda>d e. if d = 1 then e else d) s s') else None)"

fun indices :: "nat list \<Rightarrow> nat list list" where
  "indices [] = [[]]"
| "indices (d # ds) = concat (map (\<lambda>i. map ((#) i) (indices ds)) [0..<d])"

fun flat_index :: "nat list \<Rightarrow> nat list \<Rightarrow> nat" where
  "flat_index (d # ds) (i # js) = (if d = 1 then 0 else i) * prod_list ds + flat_index ds js"
| "flat_index _ _ = 0"

definition tensor_at :: "tensor \<Rightarrow> nat list \<Rightarrow> real" where
  "tensor_at t idx = vals t ! flat_index (shape t) idx"

definition tbroadcast2 :: "(real \<Rightarrow> real \<Rightarrow> real) \<Rightarrow> tensor \<Rightarrow> tensor \<Rightarrow> error + tensor" where
  "tbroadcast2 f t u =
     (case broadcast_shapes (shape t) (shape u) of
        None \<Rightarrow> Inl RuntimeError
      | Some s \<Rightarrow>
          Inr (Tensor s (map (\<lambda>idx. f (tensor_at t idx) (tensor_at u idx)) (indices s))))"

text \<open>Frame \<open>k\<close> of a video under broadcasting: the only frame of a video that has
  one.\<close>

definition frame_of :: "video \<Rightarrow> nat \<Rightarrow> tensor" where
  "frame_of v k = v ! (if length v = 1 then 0 else k)"

fun collect :: "(error + 'a) list \<Rightarrow> error + 'a list" where
  "collect [] = Inr []"
| "collect (x # xs) =
     (case x of
        Inl e \<Rightarrow> Inl e
      | Inr y \<Rightarrow> (case collect xs of Inl e \<Rightarrow> Inl e | Inr ys \<Rightarrow> Inr (y # ys)))"

definition vbroadcast2 :: "(real \<Rightarrow> real \<Rightarrow> real) \<Rightarrow> video \<Rightarrow> video \<Rightarrow> error + video" where
  "vbroadcast2 f v v' =
     (if length v = length v' \<or> length v = 1 \<or> length v' = 1 then
        collect (map (\<lambda>k. tbroadcast2 f (frame_of v k) (frame_of v' k))
                   [0..<(if length v = 1 then length v' else length v)])
      else Inl RuntimeError)"

section \<open>Collaborators, the world and effects\<close>

text \<open>
  The collaborators whose code is outside this file are parameters. The state of a
  random generator is a natural number; \<open>randn g k\<close> is the \<open>k\<close>-th value the
  generator in state \<open>g\<close> draws next and \<open>advance g n\<close> its state after \<open>n\<close>
  draws. The same state stands for the global generator when the caller passes none.
\<close>

type_synonym gen = nat
type_synonym box = "real \<times> real \<times> real \<times> real"
type_synonym affine = "real list"

record vae_model =
  scaling_factor :: real
  shift_factor :: real
  latent_channels :: int
  vae_encode :: "video \<Rightarrow> gen \<Rightarrow> video \<times> gen"
  vae_decode :: "video \<Rightarrow> video"

record unet_model =
  sample_size :: int
  add_audio_layer :: bool
  unet_forward :: "latent \<Rightarrow> int \<Rightarrow> video option \<Rightarrow> latent"

record scheduler_model =
  set_timesteps :: "int \<Rightarrow> int list"
  init_noise_sigma :: real
  scale_model_input :: "latent \<Rightarrow> int \<Rightarrow> latent"
  scheduler_step :: "latent \<Rightarrow> int \<Rightarrow> latent \<Rightarrow> real option \<Rightarrow> gen option \<Rightarrow> latent \<times> gen option"
  scheduler_order :: int
  accepts_eta :: bool
  accepts_generator :: bool

record audio_encoder_model =
  audio2feat :: "string \<Rightarrow> tensor list"
  feature2chunks :: "tensor list \<Rightarrow> int \<Rightarrow> tensor list"

record image_processor_model =
  affine_transform :: "frame \<Rightarrow> (tensor \<times> box \<times> affine) option"
  prepare_masks_and_masked_images :: "video \<Rightarrow> video \<times> video \<times> video"
  restore_img :: "frame \<Rightarrow> frame \<Rightarrow> affine \<Rightarrow> frame"

text \<open>The pipeline object: the modules registered by \<^verbatim>\<open>__init__\<close> and
  \<^verbatim>\<open>vae_scale_factor\<close>.\<close>

record pipeline =
  vae :: vae_model
  audio_encoder :: audio_encoder_model
  unet :: unet_model
  scheduler :: scheduler_model
  vae_scale_factor :: int

text \<open>The host: files, libraries and the external encoder. \<open>to_weight_dtype\<close> is
  the conversion of one value to the weight dtype of the run
  (\<^verbatim>\<open>.to(dtype=weight_dtype)\<close>, \<^verbatim>\<open>float16\<close> by default).\<close>

record host =
  ffmpeg_installed :: bool
  read_video :: "string \<Rightarrow> frame list"
  read_audio :: "string \<Rightarrow> real list"
  ImageProcessor :: "int option \<Rightarrow> string \<Rightarrow> image_processor_model"
  randn :: "gen \<Rightarrow> nat \<Rightarrow> real"
  advance :: "gen \<Rightarrow> nat \<Rightarrow> gen"
  interpolate :: "video \<Rightarrow> int \<Rightarrow> int \<Rightarrow> video"
  resize :: "tensor \<Rightarrow> int \<Rightarrow> int \<Rightarrow> tensor"
  cv2_resize :: "tensor \<Rightarrow> int \<Rightarrow> int \<Rightarrow> tensor"
  to_weight_dtype :: "real \<Rightarrow> real"

text \<open>The arguments of \<^verbatim>\<open>__call__\<close>. \<open>arg_callback\<close> says whether a callback was
  passed.\<close>

record args =
  arg_video_path :: string
  arg_audio_path :: string
  arg_video_out_path :: string
  arg_num_frames :: int
  arg_video_fps :: int
  arg_audio_sample_rate :: int
  arg_height :: "int option"
  arg_width :: "int option"
  arg_num_inference_steps :: int
  arg_guidance_scale :: real
  arg_eta :: real
  arg_mask :: string
  arg_callback :: bool
  arg_callback_steps :: cb_steps
  arg_superres :: string

text \<open>Files of the temporary directory, and the effects of a run in the order the
  source performs them.\<close>

datatype temp_file = VideoFile "frame list" int | AudioFile "real list" int

datatype event =
    EvCheckFfmpeg
  | EvImageProcessor "int option" string
  | EvReadVideo string
  | EvAffineTransform
  | EvReadAudio string
  | EvSetTimesteps int
  | EvAudio2Feat string
  | EvFeature2Chunks int
  | EvRandn "int list"
  | EvInference nat
  | EvCallback nat int
  | EvSuperRes string real
  | EvRestoreImg nat
  | EvRmtree string
  | EvMakedirs string
  | EvWriteVideo string nat int
  | EvWriteAudio string nat int
  | EvFfmpeg string

text \<open>
  The mutable world: the trace of effects so far, the temporary directory (\<open>None\<close>
  when it does not exist, else its files by name), the generator's state, the
  attributes \<^verbatim>\<open>__call__\<close> assigns on the pipeline object, and the mode of the
  denoiser (\<^verbatim>\<open>unet.training\<close>).
\<close>

record world =
  trace :: "event list"
  temp_dir :: "(string \<times> temp_file) list option"
  rng :: gen
  self_superres :: string
  self_video_fps :: int
  training :: bool

type_synonym 'a io = "world \<Rightarrow> world \<times> (error + 'a)"

definition ret :: "'a \<Rightarrow> 'a io" where
  "ret x w = (w, Inr x)"

definition raise :: "error \<Rightarrow> 'a io" where
  "raise e w = (w, Inl e)"

definition bind :: "'a io \<Rightarrow> ('a \<Rightarrow> 'b io) \<Rightarrow> 'b io" where
  "bind m f w = (case m w of (w', Inl e) \<Rightarrow> (w', Inl e) | (w', Inr x) \<Rightarrow> f x w')"

definition lift :: "error + 'a \<Rightarrow> 'a io" where
  "lift r = (case r of Inl e \<Rightarrow> raise e | Inr x \<Rightarrow> ret x)"

definition emit :: "event \<Rightarrow> unit io" where
  "emit ev w = (w\<lparr>trace := trace w @ [ev]\<rparr>, Inr ())"

definition modify :: "(world \<Rightarrow> world) \<Rightarrow> unit io" where
  "modify f w = (f w, Inr ())"

definition with_rng :: "(gen \<Rightarrow> 'a \<times> gen) \<Rightarrow> 'a io" where
  "with_rng f w = (case f (rng w) of (x, g) \<Rightarrow> (w\<lparr>rng := g\<rparr>, Inr x))"

text \<open>A \<^verbatim>\<open>for\<close> loop that collects one result per element, and one that carries a
  state; both stop at the first raise.\<close>

primrec for_each :: "('a \<Rightarrow> 'b io) \<Rightarrow> 'a list \<Rightarrow> 'b list io" where
  "for_each f [] = ret []"
| "for_each f (x # xs) = bind (f x) (\<lambda>y. bind (for_each f xs) (\<lambda>ys. ret (y # ys)))"

primrec for_state :: "('s \<Rightarrow> 'a \<Rightarrow> 's io) \<Rightarrow> 'a list \<Rightarrow> 's \<Rightarrow> 's io" where
  "for_state f [] s = ret s"
| "for_state f (x # xs) s = bind (f s x) (for_state f xs)"

section \<open>The methods of the pipeline\<close>

text \<open>Arguments that only move a tensor to a device are left out, and so are the
  conversions of a tensor to the weight dtype on its way into a collaborator. The
  conversions inside \<^verbatim>\<open>paste_surrounding_pixels_back\<close>, whose result is the output
  of a chunk, are kept. \<open>self\<close> is the pipeline object, \<open>h\<close> the host.\<close>

definition decode_latents :: "pipeline \<Rightarrow> latent \<Rightarrow> video" where
  "decode_latents self latents =
     (let latents = lmap (\<lambda>x. x / scaling_factor (vae self) + shift_factor (vae self)) latents;
          latents = concat latents
      in vae_decode (vae self) latents)"

text \<open>The extra keyword arguments of the scheduler's step: \<^verbatim>\<open>eta\<close> when the step
  accepts it, and whether the generator is forwarded.\<close>

definition prepare_extra_step_kwargs :: "pipeline \<Rightarrow> real \<Rightarrow> real option \<times> bool" where
  "prepare_extra_step_kwargs self eta =
     (if accepts_eta (scheduler self) then Some eta else None,
      accepts_generator (scheduler self))"

definition check_inputs :: "int \<Rightarrow> int \<Rightarrow> cb_steps \<Rightarrow> error + unit" where
  "check_inputs height width callback_steps =
     (if height \<noteq> width then Inl AssertionError
      else if height mod 8 \<noteq> 0 \<or> width mod 8 \<noteq> 0 then Inl ValueError
      else if (case callback_steps of CbNone \<Rightarrow> True | CbInt n \<Rightarrow> n \<le> 0 | CbOther \<Rightarrow> True)
        then Inl ValueError
      else Inr ())"

text \<open>\<^verbatim>\<open>torch.randn(shape, generator=generator)\<close> for a shape \<^verbatim>\<open>(b, c, f, h, w)\<close>:
  one draw of \<open>b * c * f * h * w\<close> values, laid out row-major.\<close>

definition randn_values ::
  "host \<Rightarrow> gen \<Rightarrow> nat \<Rightarrow> nat \<Rightarrow> nat \<Rightarrow> nat \<Rightarrow> nat \<Rightarrow> latent" where
  "randn_values h g b c f hh ww =
     map (\<lambda>bi. map (\<lambda>fi. Tensor [c, hh, ww]
        (concat (map (\<lambda>ci. concat (map (\<lambda>hi. map (\<lambda>wi.
           randn h g ((((bi * c + ci) * f + fi) * hh + hi) * ww + wi))
         [0..<ww]) [0..<hh])) [0..<c])))
      [0..<f]) [0..<b]"

definition torch_randn :: "host \<Rightarrow> int \<Rightarrow> int \<Rightarrow> int \<Rightarrow> int \<Rightarrow> int \<Rightarrow> latent io" where
  "torch_randn h b c f hh ww =
     (if b < 0 \<or> c < 0 \<or> f < 0 \<or> hh < 0 \<or> ww < 0 then raise RuntimeError
      else bind (emit (EvRandn [b, c, f, hh, ww])) (\<lambda>_.
           with_rng (\<lambda>g.
             (randn_values h g (nat b) (nat c) (nat f) (nat hh) (nat ww),
              advance h g (nat (b * c * f * hh * ww))))))"

definition prepare_latents ::
  "pipeline \<Rightarrow> host \<Rightarrow> int \<Rightarrow> int \<Rightarrow> int \<Rightarrow> int \<Rightarrow> int \<Rightarrow> latent io" where
  "prepare_latents self h batch_size num_frames num_channels_latents height width =
     (if vae_scale_factor self = 0 then raise ZeroDivisionError
      else bind (torch_randn h batch_size num_channels_latents 1
                   (height div vae_scale_factor self) (width div vae_scale_factor self))
        (\<lambda>latents.
           if num_frames < 0 then raise RuntimeError
           else let latents = map (\<lambda>fs. concat (replicate (nat num_frames) fs)) latents;
                    latents = lmap (\<lambda>x. x * init_noise_sigma (scheduler self)) latents
                in ret latents))"

definition prepare_mask_latents ::
  "pipeline \<Rightarrow> host \<Rightarrow> video \<Rightarrow> video \<Rightarrow> int \<Rightarrow> int \<Rightarrow> bool \<Rightarrow> (latent \<times> latent) io" where
  "prepare_mask_latents self h mask_in masked_image height width do_classifier_free_guidance =
     (if vae_scale_factor self = 0 then raise ZeroDivisionError
      else
        let mask_in = interpolate h mask_in
              (height div vae_scale_factor self) (width div vae_scale_factor self)
        in bind (with_rng (vae_encode (vae self) masked_image)) (\<lambda>masked_image_latents.
           let masked_image_latents =
                 vmap (\<lambda>x. (x - shift_factor (vae self)) * scaling_factor (vae self))
                   masked_image_latents;
               mask_in = [mask_in];
               masked_image_latents = [masked_image_latents]
           in if do_classifier_free_guidance
              then ret (mask_in @ mask_in, masked_image_latents @ masked_image_latents)
              else ret (mask_in, masked_image_latents)))"

definition prepare_image_latents :: "pipeline \<Rightarrow> video \<Rightarrow> bool \<Rightarrow> latent io" where
  "prepare_image_latents self images do_classifier_free_guidance =
     bind (with_rng (vae_encode (vae self) images)) (\<lambda>image_latents.
     let image_latents =
           vmap (\<lambda>x. (x - shift_factor (vae self)) * scaling_factor (vae self)) image_latents;
         image_latents = [image_latents]
     in if do_classifier_free_guidance then ret (image_latents @ image_latents)
        else ret image_latents)"

text \<open>Lines 209 to 213. The pixel values and the masks are converted to the weight
  dtype; the three elementwise operations broadcast.\<close>

definition paste_surrounding_pixels_back ::
  "host \<Rightarrow> video \<Rightarrow> video \<Rightarrow> video \<Rightarrow> error + video" where
  "paste_surrounding_pixels_back h decoded_latents pixel_values masks =
     (let pixel_values = vmap (to_weight_dtype h) pixel_values;
          masks = vmap (to_weight_dtype h) masks
      in case vbroadcast2 (*) decoded_latents masks of
           Inl e \<Rightarrow> Inl e
         | Inr decoded_part \<Rightarrow>
             (case vbroadcast2 (*) pixel_values (vmap (\<lambda>m. 1 - m) masks) of
                Inl e \<Rightarrow> Inl e
              | Inr surrounding_part \<Rightarrow> vbroadcast2 (+) decoded_part surrounding_part))"

definition affine_transform_video ::
  "host \<Rightarrow> image_processor_model \<Rightarrow> string \<Rightarrow>
   (video \<times> frame list \<times> box list \<times> affine list) io" where
  "affine_transform_video h image_processor video_path =
     bind (emit (EvReadVideo video_path)) (\<lambda>_.
     let video_frames = read_video h video_path in
     bind (for_each (\<lambda>frame.
             bind (emit EvAffineTransform) (\<lambda>_.
             case affine_transform image_processor frame of
               None \<Rightarrow> raise CollaboratorError
             | Some r \<Rightarrow> ret r)) video_frames) (\<lambda>rs.
     bind (lift (stack (map fst rs))) (\<lambda>faces.
     ret (faces, video_frames, map (fst \<circ> snd) rs, map (snd \<circ> snd) rs))))"

subsection \<open>Restoration and super-resolution\<close>

text \<open>
  The two placeholders of the source upscale with \<^verbatim>\<open>cv2.resize\<close> and divide by
  255. The transpositions and the colour swaps around the resize undo each other, so
  \<open>cv2_resize\<close> of the host takes and returns a \<open>[c, h, w]\<close> tensor; its size
  arguments are \<^verbatim>\<open>(new_w, new_h)\<close> as in the source.
\<close>

definition apply_gfpgan_superres :: "host \<Rightarrow> tensor \<Rightarrow> real \<Rightarrow> error + tensor" where
  "apply_gfpgan_superres h face_tensor scale_factor =
     (case shape face_tensor of
        [c, hh, ww] \<Rightarrow>
          let new_h = py_int (real hh * scale_factor);
              new_w = py_int (real ww * scale_factor);
              upscaled = cv2_resize h face_tensor new_w new_h;
              restored_torch = tmap (\<lambda>x. x / 255) upscaled
          in Inr restored_torch
      | _ \<Rightarrow> Inl ValueError)"

definition apply_codeformer_superres :: "host \<Rightarrow> tensor \<Rightarrow> real \<Rightarrow> error + tensor" where
  "apply_codeformer_superres h face_tensor scale_factor =
     (case shape face_tensor of
        [c, hh, ww] \<Rightarrow>
          let new_h = py_int (real hh * scale_factor);
              new_w = py_int (real ww * scale_factor);
              upscaled = cv2_resize h face_tensor new_w new_h;
              restored_torch = tmap (\<lambda>x. x / 255) upscaled
          in Inr restored_torch
      | _ \<Rightarrow> Inl ValueError)"

text \<open>The block between the \<^verbatim>\<open>SUPERRES ADD\<close> marks of \<^verbatim>\<open>restore_video\<close>. An
  invocation of a variant is recorded in the trace with its scale factor.\<close>

definition superres_step ::
  "host \<Rightarrow> string \<Rightarrow> tensor \<Rightarrow> nat \<Rightarrow> nat \<Rightarrow> int \<Rightarrow> int \<Rightarrow> tensor io" where
  "superres_step h superres face face_h face_w height width =
     (if superres \<noteq> ''none'' \<and> (int face_h < height \<or> int face_w < width) then
        if face_h = 0 \<or> face_w = 0 then raise ZeroDivisionError
        else
          let scale_h = real_of_int height / real face_h;
              scale_w = real_of_int width / real face_w;
              scale_factor = max scale_h scale_w
          in if superres = ''GFPGAN'' then
               bind (emit (EvSuperRes ''GFPGAN'' scale_factor)) (\<lambda>_.
               lift (apply_gfpgan_superres h face scale_factor))
             else if superres = ''CodeFormer'' then
               bind (emit (EvSuperRes ''CodeFormer'' scale_factor)) (\<lambda>_.
               lift (apply_codeformer_superres h face scale_factor))
             else ret face
      else ret face)"

text \<open>\<^verbatim>\<open>rearrange(face, "c h w -> h w c")\<close>, then the conversion to \<^verbatim>\<open>uint8\<close>.\<close>

definition chw_to_hwc :: "nat \<Rightarrow> nat \<Rightarrow> nat \<Rightarrow> 'a list \<Rightarrow> 'a list" where
  "chw_to_hwc c hh ww xs =
     concat (map (\<lambda>i. concat (map (\<lambda>j. map (\<lambda>k. xs ! (k * hh * ww + i * ww + j))
       [0..<c]) [0..<ww])) [0..<hh])"

definition face_to_frame :: "tensor \<Rightarrow> error + frame" where
  "face_to_frame face =
     (case shape face of
        [c, hh, ww] \<Rightarrow>
          if length (vals face) = c * hh * ww then
            Inr (Frame [hh, ww, c]
                  (map (\<lambda>x. nat \<lfloor>min 1 (max 0 (x / 2 + 0.5)) * 255\<rfloor>)
                     (chw_to_hwc c hh ww (vals face))))
          else Inl RuntimeError
      | _ \<Rightarrow> Inl RuntimeError)"

definition restore_face ::
  "host \<Rightarrow> image_processor_model \<Rightarrow> frame list \<Rightarrow> box list \<Rightarrow> affine list \<Rightarrow>
   nat \<times> tensor \<Rightarrow> frame io" where
  "restore_face h image_processor video_frames boxes affine_matrices =
     (\<lambda>(index, face).
        bind (lift (py_get boxes index)) (\<lambda>(x1, y1, x2, y2).
        let height = py_int (y2 - y1);
            width = py_int (x2 - x1)
        in case shape face of
             [c, face_h, face_w] \<Rightarrow>
               bind (\<lambda>w. superres_step h (self_superres w) face face_h face_w height width w)
                 (\<lambda>face.
               let face = resize h face height width in
               bind (lift (face_to_frame face)) (\<lambda>face.
               bind (lift (py_get video_frames index)) (\<lambda>video_frame.
               bind (lift (py_get affine_matrices index)) (\<lambda>affine_matrix.
               bind (emit (EvRestoreImg index)) (\<lambda>_.
               ret (restore_img image_processor video_frame face affine_matrix))))))
           | _ \<Rightarrow> raise ValueError))"

definition restore_video ::
  "host \<Rightarrow> image_processor_model \<Rightarrow> video \<Rightarrow> frame list \<Rightarrow> box list \<Rightarrow> affine list \<Rightarrow>
   frame list io" where
  "restore_video h image_processor faces video_frames boxes affine_matrices =
     (let video_frames = py_slice video_frames 0 (int (length faces)) in
      bind (for_each (restore_face h image_processor video_frames boxes affine_matrices)
              (enumerate 0 faces)) (\<lambda>out_frames.
      if out_frames = [] then raise ValueError else ret out_frames))"

section \<open>The run: \<^verbatim>\<open>__call__\<close>\<close>

text \<open>The local variables of \<^verbatim>\<open>__call__\<close> that the loop over the chunks reads.\<close>

record run_ctx =
  ctx_faces :: video
  ctx_whisper_chunks :: "tensor list"
  ctx_all_latents :: latent
  ctx_timesteps :: "int list"
  ctx_extra_step_kwargs :: "real option \<times> bool"
  ctx_height :: int
  ctx_width :: int
  ctx_num_frames :: int
  ctx_num_inference_steps :: int
  ctx_guidance_scale :: real
  ctx_do_classifier_free_guidance :: bool
  ctx_callback :: bool
  ctx_callback_steps :: cb_steps

text \<open>Lines 462 to 464: the recombination of the two halves of the prediction.\<close>

definition guide :: "real \<Rightarrow> latent \<Rightarrow> error + latent" where
  "guide guidance_scale noise_pred =
     (case chunk2 noise_pred of
        Inl e \<Rightarrow> Inl e
      | Inr (noise_pred_uncond, noise_pred_audio) \<Rightarrow>
          if lsame_shape noise_pred_audio noise_pred_uncond then
            Inr (lmap2 (+) noise_pred_uncond
                   (lmap (\<lambda>x. guidance_scale * x)
                      (lmap2 (-) noise_pred_audio noise_pred_uncond)))
          else Inl RuntimeError)"

text \<open>The prediction handed to the scheduler at one timestep (lines 455 to 464).\<close>

definition predict_noise ::
  "pipeline \<Rightarrow> run_ctx \<Rightarrow> latent \<Rightarrow> latent \<Rightarrow> latent \<Rightarrow> video option \<Rightarrow> latent \<Rightarrow> int \<Rightarrow>
   error + latent" where
  "predict_noise self c mask_latents masked_image_latents image_latents audio_embeds latents t =
     (let latent_model_input =
            (if ctx_do_classifier_free_guidance c then latents @ latents else latents);
          latent_model_input = scale_model_input (scheduler self) latent_model_input t
      in case cat_channels
                [latent_model_input, mask_latents, masked_image_latents, image_latents] of
           Inl e \<Rightarrow> Inl e
         | Inr latent_model_input \<Rightarrow>
             let noise_pred = unet_forward (unet self) latent_model_input t audio_embeds
             in if ctx_do_classifier_free_guidance c
                then guide (ctx_guidance_scale c) noise_pred
                else Inr noise_pred)"

text \<open>Lines 468 to 471: the progress tick and the callback. The callback is an
  observer: its call is recorded, and it does not raise.\<close>

definition progress_tick :: "pipeline \<Rightarrow> run_ctx \<Rightarrow> int \<Rightarrow> nat \<Rightarrow> int \<Rightarrow> unit io" where
  "progress_tick self c num_warmup_steps j t =
     (let fire =
            (if ctx_callback c then
               (case ctx_callback_steps c of
                  CbInt n \<Rightarrow>
                    if n = 0 then raise ZeroDivisionError
                    else if int j mod n = 0 then emit (EvCallback j t) else ret ()
                | _ \<Rightarrow> raise TypeError)
             else ret ())
      in if int j = int (length (ctx_timesteps c)) - 1 then fire
         else if num_warmup_steps < int j + 1 then
           (if scheduler_order (scheduler self) = 0 then raise ZeroDivisionError
            else if (int j + 1) mod scheduler_order (scheduler self) = 0 then fire
            else ret ())
         else ret ())"

definition denoise_step ::
  "pipeline \<Rightarrow> run_ctx \<Rightarrow> latent \<Rightarrow> latent \<Rightarrow> latent \<Rightarrow> video option \<Rightarrow> int \<Rightarrow>
   latent \<Rightarrow> nat \<times> int \<Rightarrow> latent io" where
  "denoise_step self c mask_latents masked_image_latents image_latents audio_embeds
      num_warmup_steps latents =
     (\<lambda>(j, t).
        bind (lift (predict_noise self c mask_latents masked_image_latents image_latents
                      audio_embeds latents t)) (\<lambda>noise_pred.
        bind (with_rng (\<lambda>g.
                case scheduler_step (scheduler self) noise_pred t latents
                       (fst (ctx_extra_step_kwargs c))
                       (if snd (ctx_extra_step_kwargs c) then Some g else None) of
                  (prev_sample, g') \<Rightarrow> (prev_sample, case g' of None \<Rightarrow> g | Some g'' \<Rightarrow> g'')))
          (\<lambda>latents.
        bind (progress_tick self c num_warmup_steps j t) (\<lambda>_.
        ret latents))))"

text \<open>The audio embedding of chunk \<open>i\<close> (lines 417 to 424).\<close>

definition chunk_audio_embeds :: "pipeline \<Rightarrow> run_ctx \<Rightarrow> nat \<Rightarrow> error + video option" where
  "chunk_audio_embeds self c i =
     (if add_audio_layer (unet self) then
        (case stack (py_slice (ctx_whisper_chunks c)
                       (int i * ctx_num_frames c) ((int i + 1) * ctx_num_frames c)) of
           Inl e \<Rightarrow> Inl e
         | Inr audio_embeds \<Rightarrow>
             if ctx_do_classifier_free_guidance c then
               let null_audio_embeds = zeros_like audio_embeds
               in Inr (Some (null_audio_embeds @ audio_embeds))
             else Inr (Some audio_embeds))
      else Inr None)"

text \<open>The faces and the starting latent of chunk \<open>i\<close> (lines 426 and 427).\<close>

definition chunk_faces :: "run_ctx \<Rightarrow> nat \<Rightarrow> video" where
  "chunk_faces c i =
     py_slice (ctx_faces c) (int i * ctx_num_frames c) ((int i + 1) * ctx_num_frames c)"

definition chunk_latents :: "run_ctx \<Rightarrow> nat \<Rightarrow> latent" where
  "chunk_latents c i =
     slice_frames (ctx_all_latents c) (int i * ctx_num_frames c) ((int i + 1) * ctx_num_frames c)"

text \<open>The body of the loop over the chunks (lines 417 to 477), in two parts: what
  an iteration does with the audio embedding, the faces and the starting latent of its
  window (lines 429 to 477), and the iteration for the index \<open>i\<close>, which takes the
  three from the window of \<open>i\<close> (lines 417 to 427).\<close>

definition process_chunk ::
  "pipeline \<Rightarrow> host \<Rightarrow> image_processor_model \<Rightarrow> run_ctx \<Rightarrow> video option \<Rightarrow> video \<Rightarrow> latent \<Rightarrow>
   video io" where
  "process_chunk self h image_processor c audio_embeds inference_faces latents =
     (case prepare_masks_and_masked_images image_processor inference_faces of
          (pixel_values, masked_pixel_values, masks) \<Rightarrow>
     bind (prepare_mask_latents self h masks masked_pixel_values (ctx_height c) (ctx_width c)
             (ctx_do_classifier_free_guidance c)) (\<lambda>(mask_latents, masked_image_latents).
     bind (prepare_image_latents self pixel_values (ctx_do_classifier_free_guidance c))
       (\<lambda>image_latents.
     let num_warmup_steps =
           int (length (ctx_timesteps c))
             - ctx_num_inference_steps c * scheduler_order (scheduler self)
     in
     bind (for_state (denoise_step self c mask_latents masked_image_latents image_latents
                        audio_embeds num_warmup_steps)
             (enumerate 0 (ctx_timesteps c)) latents) (\<lambda>latents.
     let decoded_latents = decode_latents self latents in
     lift (paste_surrounding_pixels_back h decoded_latents pixel_values
             (vmap (\<lambda>m. 1 - m) masks))))))"

definition inference ::
  "pipeline \<Rightarrow> host \<Rightarrow> image_processor_model \<Rightarrow> run_ctx \<Rightarrow> nat \<Rightarrow> video io" where
  "inference self h image_processor c i =
     bind (lift (chunk_audio_embeds self c i)) (\<lambda>audio_embeds.
     let inference_faces = chunk_faces c i;
         latents = chunk_latents c i
     in process_chunk self h image_processor c audio_embeds inference_faces latents)"

text \<open>Lines 396 to 401: the audio features and the number of chunks.\<close>

definition plan_chunks ::
  "pipeline \<Rightarrow> args \<Rightarrow> video \<Rightarrow> (tensor list \<times> int) io" where
  "plan_chunks self a faces =
     (if add_audio_layer (unet self) then
        bind (emit (EvAudio2Feat (arg_audio_path a))) (\<lambda>_.
        let whisper_feature = audio2feat (audio_encoder self) (arg_audio_path a) in
        bind (emit (EvFeature2Chunks (arg_video_fps a))) (\<lambda>_.
        let whisper_chunks =
              feature2chunks (audio_encoder self) whisper_feature (arg_video_fps a)
        in if arg_num_frames a = 0 then raise ZeroDivisionError
           else ret (whisper_chunks,
                  min (int (length faces)) (int (length whisper_chunks)) div arg_num_frames a)))
      else if arg_num_frames a = 0 then raise ZeroDivisionError
      else ret ([], int (length faces) div arg_num_frames a))"

text \<open>Lines 484 to 499: the audio is cut, the temporary directory is removed if it
  exists and made again, the two intermediate files are written and the external
  encoder is run. Its exit status is not read.\<close>

definition write_outputs :: "args \<Rightarrow> frame list \<Rightarrow> real list \<Rightarrow> bool \<Rightarrow> unit io" where
  "write_outputs a synced_video_frames audio_samples is_train =
     bind (if arg_video_fps a = 0 then raise ZeroDivisionError
           else ret (py_int (real (length synced_video_frames) / real_of_int (arg_video_fps a)
                       * real_of_int (arg_audio_sample_rate a)))) (\<lambda>audio_samples_remain_length.
     let audio_samples = py_slice audio_samples 0 audio_samples_remain_length in
     bind (if is_train then modify (\<lambda>w. w\<lparr>training := True\<rparr>) else ret ()) (\<lambda>_.
     bind (\<lambda>w. if temp_dir w \<noteq> None
               then bind (emit (EvRmtree ''temp'')) (\<lambda>_. modify (\<lambda>w. w\<lparr>temp_dir := None\<rparr>)) w
               else ret () w) (\<lambda>_.
     bind (emit (EvMakedirs ''temp'')) (\<lambda>_.
     bind (modify (\<lambda>w. w\<lparr>temp_dir :=
             Some (case temp_dir w of None \<Rightarrow> [] | Some fs \<Rightarrow> fs)\<rparr>)) (\<lambda>_.
     bind (emit (EvWriteVideo ''temp/video.mp4'' (length synced_video_frames) 25)) (\<lambda>_.
     bind (modify (\<lambda>w. w\<lparr>temp_dir := map_option
             (\<lambda>fs. AList.update ''video.mp4'' (VideoFile synced_video_frames 25) fs)
             (temp_dir w)\<rparr>)) (\<lambda>_.
     bind (emit (EvWriteAudio ''temp/audio.wav'' (length audio_samples)
                  (arg_audio_sample_rate a))) (\<lambda>_.
     bind (modify (\<lambda>w. w\<lparr>temp_dir := map_option
             (\<lambda>fs. AList.update ''audio.wav''
                      (AudioFile audio_samples (arg_audio_sample_rate a)) fs)
             (temp_dir w)\<rparr>)) (\<lambda>_.
     emit (EvFfmpeg (arg_video_out_path a)))))))))))"

text \<open>Lines 390 to 393 and the values the loop reads: the flag of classifier-free
  guidance, the timesteps and the keyword arguments of the scheduler's step.\<close>

definition run_context ::
  "pipeline \<Rightarrow> args \<Rightarrow> video \<Rightarrow> tensor list \<Rightarrow> latent \<Rightarrow> int \<Rightarrow> int \<Rightarrow> run_ctx" where
  "run_context self a faces whisper_chunks all_latents height width =
     (let do_classifier_free_guidance = (1 < arg_guidance_scale a);
          timesteps = set_timesteps (scheduler self) (arg_num_inference_steps a);
          extra_step_kwargs = prepare_extra_step_kwargs self (arg_eta a)
      in \<lparr> ctx_faces = faces, ctx_whisper_chunks = whisper_chunks,
           ctx_all_latents = all_latents, ctx_timesteps = timesteps,
           ctx_extra_step_kwargs = extra_step_kwargs,
           ctx_height = height, ctx_width = width,
           ctx_num_frames = arg_num_frames a,
           ctx_num_inference_steps = arg_num_inference_steps a,
           ctx_guidance_scale = arg_guidance_scale a,
           ctx_do_classifier_free_guidance = do_classifier_free_guidance,
           ctx_callback = arg_callback a,
           ctx_callback_steps = arg_callback_steps a \<rparr>)"

text \<open>
  \<^verbatim>\<open>__call__\<close> in three parts. The first (lines 367 to 388) stores the
  super-resolution mode, puts the denoiser in evaluation mode, checks for the external
  encoder, extracts the faces of the whole video, reads the audio, fills in the default
  height and width and checks the inputs. Its results are the local variables the rest
  of the run reads.
\<close>

record run_setup =
  su_is_train :: bool
  su_image_processor :: image_processor_model
  su_faces :: video
  su_original_video_frames :: "frame list"
  su_boxes :: "box list"
  su_affine_matrices :: "affine list"
  su_audio_samples :: "real list"
  su_height :: int
  su_width :: int

definition default_size :: "pipeline \<Rightarrow> int option \<Rightarrow> int" where
  "default_size self x = py_or x (sample_size (unet self) * vae_scale_factor self)"

definition call_setup :: "pipeline \<Rightarrow> host \<Rightarrow> args \<Rightarrow> run_setup io" where
  "call_setup self h a =
     bind (modify (\<lambda>w. w\<lparr>self_superres := arg_superres a\<rparr>)) (\<lambda>_.
     bind (\<lambda>w. (w, Inr (training w))) (\<lambda>is_train.
     bind (modify (\<lambda>w. w\<lparr>training := False\<rparr>)) (\<lambda>_.
     bind (emit EvCheckFfmpeg) (\<lambda>_.
     bind (if ffmpeg_installed h then ret () else raise FileNotFoundError) (\<lambda>_.
     bind (emit (EvImageProcessor (arg_height a) (arg_mask a))) (\<lambda>_.
     let image_processor = ImageProcessor h (arg_height a) (arg_mask a) in
     bind (affine_transform_video h image_processor (arg_video_path a))
       (\<lambda>(faces, original_video_frames, boxes, affine_matrices).
     bind (emit (EvReadAudio (arg_audio_path a))) (\<lambda>_.
     let audio_samples = read_audio h (arg_audio_path a);
         height = default_size self (arg_height a);
         width = default_size self (arg_width a)
     in
     bind (lift (check_inputs height width (arg_callback_steps a))) (\<lambda>_.
     ret \<lparr> su_is_train = is_train, su_image_processor = image_processor,
           su_faces = faces, su_original_video_frames = original_video_frames,
           su_boxes = boxes, su_affine_matrices = affine_matrices,
           su_audio_samples = audio_samples, su_height = height, su_width = width \<rparr>
     )))))))))"

text \<open>The second part (lines 390 to 482): the timesteps, the number of chunks, the
  noise, the loop over the chunks, and the restoration of the faces into the frames.
  Every iteration of the loop is recorded in the trace before its body runs.\<close>

definition call_denoise :: "pipeline \<Rightarrow> host \<Rightarrow> args \<Rightarrow> run_setup \<Rightarrow> frame list io" where
  "call_denoise self h a s =
     (let batch_size = 1 in
      bind (emit (EvSetTimesteps (arg_num_inference_steps a))) (\<lambda>_.
      bind (modify (\<lambda>w. w\<lparr>self_video_fps := arg_video_fps a\<rparr>)) (\<lambda>_.
      bind (plan_chunks self a (su_faces s)) (\<lambda>(whisper_chunks, num_inferences).
      bind (prepare_latents self h batch_size (arg_num_frames a * num_inferences)
              (latent_channels (vae self)) (su_height s) (su_width s)) (\<lambda>all_latents.
      let c = run_context self a (su_faces s) whisper_chunks all_latents
                (su_height s) (su_width s)
      in
      bind (for_each (\<lambda>i. bind (emit (EvInference i)) (\<lambda>_.
                          inference self h (su_image_processor s) c i))
              (py_range num_inferences)) (\<lambda>synced_video_frames.
      bind (lift (cat_videos synced_video_frames)) (\<lambda>synced_faces.
      restore_video h (su_image_processor s) synced_faces (su_original_video_frames s)
        (su_boxes s) (su_affine_matrices s))))))))"

text \<open>The whole run; its third part is \<open>write_outputs\<close>.\<close>

definition call :: "pipeline \<Rightarrow> host \<Rightarrow> args \<Rightarrow> unit io" where
  "call self h a =
     bind (call_setup self h a) (\<lambda>s.
     bind (call_denoise self h a s) (\<lambda>synced_video_frames.
     write_outputs a synced_video_frames (su_audio_samples s) (su_is_train s)))"

section \<open>A small concrete installation\<close>

text \<open>
  Collaborators on \<open>1 \<times> 1\<close> images, used to run the definitions on concrete inputs:
  a video of \<open>n\<close> frames, an audio track of \<open>m\<close> samples, an audio encoder that
  yields \<open>k fps\<close> embeddings at the frame rate \<open>fps\<close>, an image processor whose mask is \<open>keep\<close> everywhere, a
  codec that is the identity, a denoiser that returns the first channel of its input,
  and a generator that counts.
\<close>

definition demo_image_processor :: "real \<Rightarrow> image_processor_model" where
  "demo_image_processor keep =
     \<lparr> affine_transform = (\<lambda>f. Some (Tensor [1, 1, 1] [real (sum_list (pixels f))], (0, 0, 2, 2), [])),
       prepare_masks_and_masked_images =
         (\<lambda>faces. (faces, vmap (\<lambda>x. x * keep) faces, vmap (\<lambda>_. keep) faces)),
       restore_img = (\<lambda>video_frame face affine_matrix. face) \<rparr>"

definition demo_host :: "nat \<Rightarrow> nat \<Rightarrow> host" where
  "demo_host n m =
     \<lparr> ffmpeg_installed = True,
       read_video = (\<lambda>path. map (\<lambda>k. Frame [1, 1, 1] [k]) [0..<n]),
       read_audio = (\<lambda>path. replicate m 0),
       ImageProcessor = (\<lambda>height mask_name. demo_image_processor 0),
       randn = (\<lambda>g k. real (g + k)),
       advance = (\<lambda>g k. g + k),
       interpolate = (\<lambda>v hh ww. v),
       resize = (\<lambda>t hh ww. Tensor [1, nat hh, nat ww] (replicate (nat hh * nat ww) (hd (vals t)))),
       cv2_resize = (\<lambda>t ww hh. Tensor [1, nat hh, nat ww] (replicate (nat hh * nat ww) (hd (vals t)))),
       to_weight_dtype = (\<lambda>x. x) \<rparr>"

definition demo_pipeline :: "bool \<Rightarrow> (int \<Rightarrow> nat) \<Rightarrow> pipeline" where
  "demo_pipeline audio k =
     \<lparr> vae = \<lparr> scaling_factor = 1, shift_factor = 0, latent_channels = 1,
               vae_encode = (\<lambda>v g. (v, g)), vae_decode = (\<lambda>v. v) \<rparr>,
       audio_encoder = \<lparr> audio2feat = (\<lambda>path. []),
                         feature2chunks = (\<lambda>feature fps. replicate (k fps) (Tensor [1] [1])) \<rparr>,
       unet = \<lparr> sample_size = 1, add_audio_layer = audio,
                unet_forward = (\<lambda>x t e. map (map (\<lambda>u. Tensor [1, 1, 1] (take 1 (vals u)))) x) \<rparr>,
       scheduler = \<lparr> set_timesteps = (\<lambda>steps. [1, 0]), init_noise_sigma = 1,
                     scale_model_input = (\<lambda>x t. x),
                     scheduler_step = (\<lambda>pred t x eta g. (lmap2 (-) x pred, g)),
                     scheduler_order = 1, accepts_eta = True, accepts_generator = False \<rparr>,
       vae_scale_factor = 8 \<rparr>"

definition demo_args :: "int \<Rightarrow> int \<Rightarrow> int \<Rightarrow> real \<Rightarrow> args" where
  "demo_args num_frames video_fps audio_sample_rate guidance_scale =
     \<lparr> arg_video_path = ''in.mp4'', arg_audio_path = ''in.wav'',
       arg_video_out_path = ''out.mp4'', arg_num_frames = num_frames,
       arg_video_fps = video_fps, arg_audio_sample_rate = audio_sample_rate,
       arg_height = None, arg_width = None, arg_num_inference_steps = 2,
       arg_guidance_scale = guidance_scale, arg_eta = 0, arg_mask = ''fix_mask'',
       arg_callback = False, arg_callback_steps = CbInt 1, arg_superres = ''none'' \<rparr>"

definition demo_world :: world where
  "demo_world =
     \<lparr> trace = [], temp_dir = None, rng = 0, self_superres = ''none'',
       self_video_fps = 25, training = False \<rparr>"

text \<open>A context of two faces with the values 3 and 4 and a starting latent of zeros,
  for running the body of the loop on its own.\<close>

definition demo_ctx :: run_ctx where
  "demo_ctx =
     run_context (demo_pipeline False (\<lambda>fps. 0)) (demo_args 2 1 10 1.5)
       [Tensor [1, 1, 1] [3], Tensor [1, 1, 1] [4]] []
       [[Tensor [1, 1, 1] [0], Tensor [1, 1, 1] [0]]] 8 8"

text \<open>The same with audio conditioning and two audio embeddings, 5 and 6.\<close>

definition demo_audio_ctx :: run_ctx where
  "demo_audio_ctx =
     run_context (demo_pipeline True (\<lambda>fps. 2)) (demo_args 2 1 10 1.5)
       [Tensor [1, 1, 1] [3], Tensor [1, 1, 1] [4]] [Tensor [1] [5], Tensor [1] [6]]
       [[Tensor [1, 1, 1] [0], Tensor [1, 1, 1] [0]]] 8 8"

section \<open>Observations on a run\<close>

text \<open>
  \<open>adds P m\<close>: whatever \<open>m\<close> returns, it leaves the temporary directory as it was
  and appends to the trace only events that satisfy \<open>P\<close>.
\<close>

definition adds :: "(event \<Rightarrow> bool) \<Rightarrow> 'a io \<Rightarrow> bool" where
  "adds P m = (\<forall>w w' r. m w = (w', r) \<longrightarrow>
     temp_dir w' = temp_dir w \<and> (\<exists>es. trace w' = trace w @ es \<and> list_all P es))"

text \<open>The events a run appended to the trace of the world it started in.\<close>

definition new_events :: "world \<Rightarrow> world \<Rightarrow> event list" where
  "new_events w w' = drop (length (trace w)) (trace w')"

fun is_setup_event :: "event \<Rightarrow> bool" where
  "is_setup_event EvCheckFfmpeg = True"
| "is_setup_event (EvImageProcessor height mask_name) = True"
| "is_setup_event (EvReadVideo path) = True"
| "is_setup_event EvAffineTransform = True"
| "is_setup_event (EvReadAudio path) = True"
| "is_setup_event _ = False"

fun is_plan_event :: "event \<Rightarrow> bool" where
  "is_plan_event (EvAudio2Feat path) = True"
| "is_plan_event (EvFeature2Chunks fps) = True"
| "is_plan_event _ = False"

fun is_randn :: "event \<Rightarrow> bool" where
  "is_randn (EvRandn dims) = True"
| "is_randn _ = False"

fun is_inference :: "event \<Rightarrow> bool" where
  "is_inference (EvInference i) = True"
| "is_inference _ = False"

fun is_callback :: "event \<Rightarrow> bool" where
  "is_callback (EvCallback j t) = True"
| "is_callback _ = False"

fun is_restore_event :: "event \<Rightarrow> bool" where
  "is_restore_event (EvSuperRes variant scale_factor) = True"
| "is_restore_event (EvRestoreImg index) = True"
| "is_restore_event _ = False"

fun is_superres :: "event \<Rightarrow> bool" where
  "is_superres (EvSuperRes variant scale_factor) = True"
| "is_superres _ = False"

fun is_fs_event :: "event \<Rightarrow> bool" where
  "is_fs_event (EvRmtree path) = True"
| "is_fs_event (EvMakedirs path) = True"
| "is_fs_event (EvWriteVideo path n fps) = True"
| "is_fs_event (EvWriteAudio path n rate) = True"
| "is_fs_event (EvFfmpeg path) = True"
| "is_fs_event _ = False"

text \<open>The events of the second part of a run: everything between the check of the
  inputs and the writing of the outputs.\<close>

definition is_denoise_event :: "event \<Rightarrow> bool" where
  "is_denoise_event e =
     ((\<exists>n. e = EvSetTimesteps n) \<or> is_plan_event e \<or> is_randn e \<or> is_inference e
      \<or> is_callback e \<or> is_restore_event e)"

text \<open>The intermediate files a run left in the temporary directory.\<close>

definition written_video :: "world \<Rightarrow> temp_file option" where
  "written_video w = (case temp_dir w of None \<Rightarrow> None | Some fs \<Rightarrow> map_of fs ''video.mp4'')"

definition written_audio :: "world \<Rightarrow> temp_file option" where
  "written_audio w = (case temp_dir w of None \<Rightarrow> None | Some fs \<Rightarrow> map_of fs ''audio.wav'')"

text \<open>The usable length of a run: the number of frames of the video (one face crop
  per frame), and with audio conditioning the smaller of that and the number of audio
  embedding chunks.\<close>

definition usable_length :: "pipeline \<Rightarrow> host \<Rightarrow> args \<Rightarrow> int" where
  "usable_length self h a =
     (if add_audio_layer (unet self)
      then min (int (length (read_video h (arg_video_path a))))
               (int (length (feature2chunks (audio_encoder self)
                               (audio2feat (audio_encoder self) (arg_audio_path a))
                               (arg_video_fps a))))
      else int (length (read_video h (arg_video_path a))))"

text \<open>An invalid configuration, in the words of the specification: height and width
  differ, or one of them is not divisible by 8, or \<^verbatim>\<open>callback_steps\<close> is not a
  positive integer.\<close>

definition invalid_config :: "int \<Rightarrow> int \<Rightarrow> cb_steps \<Rightarrow> bool" where
  "invalid_config height width callback_steps =
     (height \<noteq> width \<or> \<not> 8 dvd height \<or> \<not> 8 dvd width
      \<or> (case callback_steps of CbInt n \<Rightarrow> n \<le> 0 | _ \<Rightarrow> True))"


text \<open>A tensor holds as many values as its shape says; a multi-index is within a
  shape; a shape expands to another when each of its dimensions is the other's or 1;
  \<open>clamp\<close> is the multi-index a tensor of shape \<open>s\<close> is read at for a multi-index
  of a shape it expands to.\<close>

definition wf_tensor :: "tensor \<Rightarrow> bool" where
  "wf_tensor t = (length (vals t) = prod_list (shape t))"

definition wf_video :: "video \<Rightarrow> bool" where
  "wf_video v = list_all wf_tensor v"

definition valid_index :: "nat list \<Rightarrow> nat list \<Rightarrow> bool" where
  "valid_index s idx = list_all2 (<) idx s"

definition expands_to :: "nat list \<Rightarrow> nat list \<Rightarrow> bool" where
  "expands_to s s' = list_all2 (\<lambda>d e. d = e \<or> d = 1) s s'"

definition clamp :: "nat list \<Rightarrow> nat list \<Rightarrow> nat list" where
  "clamp s idx = map2 (\<lambda>d i. if d = 1 then 0 else i) s idx"

text \<open>The face crops of a run: the first component of what the image processor of
  the run returns for each frame of the input video, in the order of the frames.\<close>

definition aligned_faces :: "host \<Rightarrow> args \<Rightarrow> video" where
  "aligned_faces h a =
     map (\<lambda>frame.
            case affine_transform (ImageProcessor h (arg_height a) (arg_mask a)) frame of
              Some (face, box, affine_matrix) \<Rightarrow> face
            | None \<Rightarrow> Tensor [] [])
       (read_video h (arg_video_path a))"


text \<open>
  The processing of a chunk as the specification words its composite: the pixels
  pasted around the inpainted region are those of the masked input
  (\<^verbatim>\<open>masked_pixel_values\<close>). It differs from \<open>process_chunk\<close>, which follows the
  source, in that operand only.
\<close>

definition process_chunk_masked_input ::
  "pipeline \<Rightarrow> host \<Rightarrow> image_processor_model \<Rightarrow> run_ctx \<Rightarrow> video option \<Rightarrow> video \<Rightarrow> latent \<Rightarrow>
   video io" where
  "process_chunk_masked_input self h image_processor c audio_embeds inference_faces latents =
     (case prepare_masks_and_masked_images image_processor inference_faces of
          (pixel_values, masked_pixel_values, masks) \<Rightarrow>
     bind (prepare_mask_latents self h masks masked_pixel_values (ctx_height c) (ctx_width c)
             (ctx_do_classifier_free_guidance c)) (\<lambda>(mask_latents, masked_image_latents).
     bind (prepare_image_latents self pixel_values (ctx_do_classifier_free_guidance c))
       (\<lambda>image_latents.
     let num_warmup_steps =
           int (length (ctx_timesteps c))
             - ctx_num_inference_steps c * scheduler_order (scheduler self)
     in
     bind (for_state (denoise_step self c mask_latents masked_image_latents image_latents
                        audio_embeds num_warmup_steps)
             (enumerate 0 (ctx_timesteps c)) latents) (\<lambda>latents.
     let decoded_latents = decode_latents self latents in
     lift (paste_surrounding_pixels_back h decoded_latents masked_pixel_values
             (vmap (\<lambda>m. 1 - m) masks))))))"

text \<open>
  The noise latent as the specification words it: one draw at the full length of
  \<open>num_frames\<close> frames, scaled by the initial sigma of the scheduler. It is compared
  with \<open>prepare_latents\<close>, which follows the source.
\<close>

definition prepare_latents_full_length ::
  "pipeline \<Rightarrow> host \<Rightarrow> int \<Rightarrow> int \<Rightarrow> int \<Rightarrow> int \<Rightarrow> int \<Rightarrow> latent io" where
  "prepare_latents_full_length self h batch_size num_frames num_channels_latents height width =
     (if vae_scale_factor self = 0 then raise ZeroDivisionError
      else bind (torch_randn h batch_size num_channels_latents num_frames
                   (height div vae_scale_factor self) (width div vae_scale_factor self))
        (\<lambda>latents. ret (lmap (\<lambda>x. x * init_noise_sigma (scheduler self)) latents)))"

text \<open>The events of the first part of a run up to the \<open>k\<close>-th face.\<close>

definition setup_events :: "host \<Rightarrow> args \<Rightarrow> nat \<Rightarrow> event list" where
  "setup_events h a k =
     [EvCheckFfmpeg, EvImageProcessor (arg_height a) (arg_mask a),
      EvReadVideo (arg_video_path a)] @ replicate k EvAffineTransform"

section \<open>Lemmas on effects and on the parts of a run\<close>


lemma bind_Inr_iff:
  "bind m f w = (w', Inr y) \<longleftrightarrow> (\<exists>w1 x. m w = (w1, Inr x) \<and> f x w1 = (w', Inr y))"
  by (auto simp: bind_def split: prod.splits sum.splits)

lemma bind_Inl_iff:
  "bind m f w = (w', Inl e) \<longleftrightarrow>
     (m w = (w', Inl e) \<or> (\<exists>w1 x. m w = (w1, Inr x) \<and> f x w1 = (w', Inl e)))"
  by (auto simp: bind_def split: prod.splits sum.splits)

lemma bind_eq:
  "bind m f w = (w', r) \<longleftrightarrow>
     (\<exists>w1 r1. m w = (w1, r1) \<and>
        (case r1 of Inl e \<Rightarrow> w' = w1 \<and> r = Inl e | Inr x \<Rightarrow> f x w1 = (w', r)))"
  by (auto simp: bind_def split: prod.splits sum.splits)

lemma ret_iff [simp]: "ret x w = (w', r) \<longleftrightarrow> w' = w \<and> r = Inr x"
  by (auto simp: ret_def)

lemma raise_iff [simp]: "raise e w = (w', r) \<longleftrightarrow> w' = w \<and> r = Inl e"
  by (auto simp: raise_def)

lemma lift_iff [simp]: "lift x w = (w', r) \<longleftrightarrow> w' = w \<and> x = r"
  by (auto simp: lift_def split: sum.splits)

lemma emit_iff [simp]:
  "emit ev w = (w', r) \<longleftrightarrow> w' = w\<lparr>trace := trace w @ [ev]\<rparr> \<and> r = Inr ()"
  by (auto simp: emit_def)

lemma modify_iff [simp]: "modify f w = (w', r) \<longleftrightarrow> w' = f w \<and> r = Inr ()"
  by (auto simp: modify_def)

lemma with_rng_iff:
  "with_rng f w = (w', r) \<longleftrightarrow> w' = w\<lparr>rng := snd (f (rng w))\<rparr> \<and> r = Inr (fst (f (rng w)))"
  by (auto simp: with_rng_def split: prod.splits)

lemma adds_ret [simp]: "adds P (ret x)"
  by (simp add: adds_def)

lemma adds_raise [simp]: "adds P (raise e)"
  by (simp add: adds_def)

lemma adds_lift [simp]: "adds P (lift x)"
  by (simp add: adds_def)

lemma adds_emit: "P ev \<Longrightarrow> adds P (emit ev)"
  by (simp add: adds_def)

lemma adds_with_rng [simp]: "adds P (with_rng f)"
  by (simp add: adds_def with_rng_iff)

lemma adds_bind:
  assumes "adds P m" and "\<And>x. adds P (f x)"
  shows "adds P (bind m f)"
  unfolding adds_def
proof (intro allI impI)
  fix w w' r
  assume b: "bind m f w = (w', r)"
  obtain w1 r1 where m: "m w = (w1, r1)" by (cases "m w")
  from assms(1) m obtain es1 where
    1: "temp_dir w1 = temp_dir w" "trace w1 = trace w @ es1" "list_all P es1"
    unfolding adds_def by blast
  show "temp_dir w' = temp_dir w \<and> (\<exists>es. trace w' = trace w @ es \<and> list_all P es)"
  proof (cases r1)
    case (Inl e)
    with b m have "w' = w1" by (simp add: bind_def)
    with 1 show ?thesis by blast
  next
    case (Inr x)
    with b m have "f x w1 = (w', r)" by (simp add: bind_def)
    with assms(2)[of x] obtain es2 where
      2: "temp_dir w' = temp_dir w1" "trace w' = trace w1 @ es2" "list_all P es2"
      unfolding adds_def by blast
    from 1 2 have "trace w' = trace w @ (es1 @ es2)" "list_all P (es1 @ es2)" by simp_all
    with 1 2 show ?thesis by (metis)
  qed
qed

lemma adds_weaken: "adds P m \<Longrightarrow> (\<And>e. P e \<Longrightarrow> Q e) \<Longrightarrow> adds Q m"
  unfolding adds_def by (meson list.pred_mono_strong)

lemma adds_for_each: "(\<And>x. adds P (f x)) \<Longrightarrow> adds P (for_each f xs)"
  by (induction xs) (auto intro!: adds_bind)

lemma adds_for_state: "(\<And>s x. adds P (f s x)) \<Longrightarrow> adds P (for_state f xs s)"
  by (induction xs arbitrary: s) (auto intro!: adds_bind)

lemma adds_torch_randn: "P (EvRandn [b, c, f, hh, ww]) \<Longrightarrow> adds P (torch_randn h b c f hh ww)"
  by (auto simp: torch_randn_def intro!: adds_bind adds_emit)

lemma adds_prepare_mask_latents: "adds P (prepare_mask_latents self h m mi hh ww g)"
  by (auto simp: prepare_mask_latents_def Let_def intro!: adds_bind)

lemma adds_prepare_image_latents: "adds P (prepare_image_latents self im g)"
  by (auto simp: prepare_image_latents_def Let_def intro!: adds_bind)

lemma adds_progress_tick: "adds is_callback (progress_tick self c nw j t)"
  by (auto simp: progress_tick_def Let_def intro!: adds_bind adds_emit split: cb_steps.splits)

lemma adds_denoise_step:
  "adds is_callback (denoise_step self c ml mil il ae nw latents jt)"
  by (cases jt) (auto simp: denoise_step_def intro!: adds_bind adds_progress_tick)



lemma adds_inference: "adds is_callback (inference self h ip c i)"
  unfolding inference_def process_chunk_def Let_def
  by (auto split: prod.splits
      intro!: adds_bind adds_for_state adds_prepare_mask_latents
              adds_prepare_image_latents adds_denoise_step)


lemma for_each_Inr:
  "for_each f xs w = (w', Inr ys) \<Longrightarrow>
     length ys = length xs \<and> (\<forall>k<length xs. \<exists>w1 w2. f (xs ! k) w1 = (w2, Inr (ys ! k)))"
proof (induction xs arbitrary: w ys)
  case Nil
  then show ?case by simp
next
  case (Cons x xs)
  from Cons.prems obtain w1 y ys' where
    1: "f x w = (w1, Inr y)" and 2: "for_each f xs w1 = (w', Inr ys')" and 3: "ys = y # ys'"
    by (auto simp: bind_Inr_iff)
  from Cons.IH[OF 2] have ih: "length ys' = length xs"
    "\<forall>k<length xs. \<exists>w1 w2. f (xs ! k) w1 = (w2, Inr (ys' ! k))" by simp_all
  show ?case
  proof (intro conjI allI impI)
    show "length ys = length (x # xs)" using ih 3 by simp
  next
    fix k assume "k < length (x # xs)"
    then show "\<exists>w1 w2. f ((x # xs) ! k) w1 = (w2, Inr (ys ! k))"
      using 1 3 ih by (cases k) auto
  qed
qed

lemma adds_chunk_loop:
  "adds (\<lambda>e. is_inference e \<or> is_callback e)
     (for_each (\<lambda>i. bind (emit (EvInference i)) (\<lambda>_. inference self h ip c i)) xs)"
  by (intro adds_for_each adds_bind adds_emit adds_weaken[OF adds_inference]) simp_all

lemma inference_no_inference_event:
  assumes "inference self h ip c i w = (w', r)"
  shows "\<exists>cs. trace w' = trace w @ cs \<and> filter is_inference cs = []"
proof -
  from adds_inference[of self h ip c i] assms obtain cs where
    "trace w' = trace w @ cs" "list_all is_callback cs"
    unfolding adds_def by blast
  moreover have "\<And>e. is_callback e \<Longrightarrow> \<not> is_inference e"
    by (case_tac e) simp_all
  ultimately show ?thesis
    by (metis (mono_tags, lifting) filter_False list_all_iff)
qed

lemma chunk_loop_trace:
  "for_each (\<lambda>i. bind (emit (EvInference i)) (\<lambda>_. inference self h ip c i)) xs w = (w', Inr ys)
   \<Longrightarrow> \<exists>es. trace w' = trace w @ es \<and> filter is_inference es = map EvInference xs"
proof (induction xs arbitrary: w ys)
  case Nil
  then show ?case by simp
next
  case (Cons x xs)
  let ?f = "\<lambda>i. bind (emit (EvInference i)) (\<lambda>_. inference self h ip c i)"
  from Cons.prems obtain w1 y ys' where
    1: "?f x w = (w1, Inr y)" and 2: "for_each ?f xs w1 = (w', Inr ys')"
    by (auto simp: bind_Inr_iff)
  from 1 have "inference self h ip c x (w\<lparr>trace := trace w @ [EvInference x]\<rparr>) = (w1, Inr y)"
    by (simp add: bind_Inr_iff)
  from inference_no_inference_event[OF this] obtain cs where
    cs: "trace w1 = trace w @ [EvInference x] @ cs" "filter is_inference cs = []" by auto
  from Cons.IH[OF 2] obtain es where
    es: "trace w' = trace w1 @ es" "filter is_inference es = map EvInference xs" by blast
  have "trace w' = trace w @ (EvInference x # cs @ es)" using cs es by simp
  moreover have "filter is_inference (EvInference x # cs @ es) = map EvInference (x # xs)"
    using cs es by simp
  ultimately show ?case by blast
qed

lemma adds_superres_step: "adds is_restore_event (superres_step h sr face fh fw hh ww)"
  by (auto simp: superres_step_def Let_def intro!: adds_bind adds_emit)

lemma adds_restore_face:
  "adds is_restore_event (restore_face h ip video_frames boxes affine_matrices x)"
proof -
  have s: "\<And>face fh fw hh ww.
     adds is_restore_event (\<lambda>w. superres_step h (self_superres w) face fh fw hh ww w)"
    using adds_superres_step unfolding adds_def by blast
  show ?thesis
    unfolding restore_face_def Let_def
    by (auto split: prod.splits list.splits intro!: adds_bind adds_emit s)
qed

lemma adds_restore_video:
  "adds is_restore_event (restore_video h ip faces video_frames boxes affine_matrices)"
  unfolding restore_video_def Let_def
  by (auto intro!: adds_bind adds_for_each adds_restore_face)

lemma restore_video_Inr:
  assumes "restore_video h ip faces video_frames boxes affine_matrices w = (w', Inr out)"
  shows "length out = length faces"
  using assms for_each_Inr[of _ "enumerate 0 faces"]
  by (fastforce simp: restore_video_def Let_def bind_Inr_iff split: if_splits)


lemma adds_modify:
  "(\<And>w. temp_dir (f w) = temp_dir w \<and> trace (f w) = trace w) \<Longrightarrow> adds P (modify f)"
  by (simp add: adds_def)

lemma adds_plan_chunks: "adds is_plan_event (plan_chunks self a faces)"
  by (auto simp: plan_chunks_def Let_def intro!: adds_bind adds_emit)

lemma plan_chunks_Inr:
  assumes "plan_chunks self a faces w = (w', Inr (wc, n))"
  shows "arg_num_frames a \<noteq> 0"
    and "wc = (if add_audio_layer (unet self)
               then feature2chunks (audio_encoder self)
                      (audio2feat (audio_encoder self) (arg_audio_path a)) (arg_video_fps a)
               else [])"
    and "n = (if add_audio_layer (unet self)
              then min (int (length faces)) (int (length wc))
              else int (length faces)) div arg_num_frames a"
    and "rng w' = rng w"
    and "trace w' = trace w @
           (if add_audio_layer (unet self)
            then [EvAudio2Feat (arg_audio_path a), EvFeature2Chunks (arg_video_fps a)]
            else [])"
  using assms
  by (auto simp: plan_chunks_def Let_def bind_Inr_iff split: if_splits)

lemma randn_values_single:
  "fs \<in> set (randn_values h g b c (Suc 0) hh ww) \<Longrightarrow> \<exists>t. fs = [t]"
  by (auto simp: randn_values_def)

lemma repeat_scale_single:
  assumes "\<And>fs. fs \<in> set noise \<Longrightarrow> \<exists>t. fs = [t]"
  shows "lmap f (map (\<lambda>fs. concat (replicate n fs)) noise)
           = map (\<lambda>fs. replicate n (tmap f (hd fs))) noise"
proof -
  have "\<And>fs. fs \<in> set noise \<Longrightarrow>
          vmap f (concat (replicate n fs)) = replicate n (tmap f (hd fs))"
  proof -
    fix fs assume "fs \<in> set noise"
    then obtain t where t: "fs = [t]" using assms by blast
    have "concat (replicate n [t]) = replicate n t"
      by (induction n) simp_all
    then show "vmap f (concat (replicate n fs)) = replicate n (tmap f (hd fs))"
      using t by (simp add: vmap_def)
  qed
  then show ?thesis by (simp add: lmap_def)
qed

lemma prepare_latents_Inr:
  assumes "prepare_latents self h b T C height width w = (w', Inr l)"
  shows "vae_scale_factor self \<noteq> 0" and "0 \<le> T"
    and "l = map (\<lambda>fs. replicate (nat T) (tmap (\<lambda>x. x * init_noise_sigma (scheduler self)) (hd fs)))
               (randn_values h (rng w) (nat b) (nat C) 1
                  (nat (height div vae_scale_factor self)) (nat (width div vae_scale_factor self)))"
    and "trace w' = trace w @ [EvRandn [b, C, 1, height div vae_scale_factor self,
                                         width div vae_scale_factor self]]"
    and "temp_dir w' = temp_dir w"
    and "rng w' = advance h (rng w)
           (nat (b * C * 1 * (height div vae_scale_factor self) * (width div vae_scale_factor self)))"
proof -
  let ?hh = "height div vae_scale_factor self" and ?ww = "width div vae_scale_factor self"
  let ?noise = "randn_values h (rng w) (nat b) (nat C) 1 (nat ?hh) (nat ?ww)"
  from assms show v: "vae_scale_factor self \<noteq> 0"
    by (auto simp: prepare_latents_def split: if_splits)
  from assms v obtain w1 noise where
    1: "torch_randn h b C 1 ?hh ?ww w = (w1, Inr noise)" and
    2: "(if T < 0 then raise RuntimeError
         else let latents = map (\<lambda>fs. concat (replicate (nat T) fs)) noise;
                  latents = lmap (\<lambda>x. x * init_noise_sigma (scheduler self)) latents
              in ret latents) w1 = (w', Inr l)"
    by (auto simp: prepare_latents_def bind_Inr_iff)
  from 2 show T: "0 \<le> T" by (auto split: if_splits)
  from 1 have n: "noise = ?noise"
    and w1: "w1 = w\<lparr>trace := trace w @ [EvRandn [b, C, 1, ?hh, ?ww]],
                    rng := advance h (rng w) (nat (b * C * 1 * ?hh * ?ww))\<rparr>"
    by (auto simp: torch_randn_def bind_Inr_iff with_rng_iff split: if_splits)
  from 2 T have l: "l = lmap (\<lambda>x. x * init_noise_sigma (scheduler self))
                         (map (\<lambda>fs. concat (replicate (nat T) fs)) noise)"
    and w': "w' = w1"
    by (auto simp: Let_def)
  have "\<And>fs. fs \<in> set noise \<Longrightarrow> \<exists>t. fs = [t]"
    using n randn_values_single[of _ h "rng w" "nat b" "nat C" "nat ?hh" "nat ?ww"] by simp
  from repeat_scale_single[OF this] l n
  show "l = map (\<lambda>fs. replicate (nat T) (tmap (\<lambda>x. x * init_noise_sigma (scheduler self)) (hd fs))) ?noise"
    by simp
  from w1 w' show "trace w' = trace w @ [EvRandn [b, C, 1, ?hh, ?ww]]"
    and "temp_dir w' = temp_dir w"
    and "rng w' = advance h (rng w) (nat (b * C * 1 * ?hh * ?ww))"
    by simp_all
qed

lemma adds_prepare_latents: "adds is_randn (prepare_latents self h b T C height width)"
  by (auto simp: prepare_latents_def Let_def intro!: adds_bind adds_torch_randn)


lemma adds_call_denoise: "adds is_denoise_event (call_denoise self h a s)"
proof -
  have p: "\<And>e. is_plan_event e \<Longrightarrow> is_denoise_event e"
    and r: "\<And>e. is_randn e \<Longrightarrow> is_denoise_event e"
    and i: "\<And>e. is_inference e \<or> is_callback e \<Longrightarrow> is_denoise_event e"
    and f: "\<And>e. is_restore_event e \<Longrightarrow> is_denoise_event e"
    by (auto simp: is_denoise_event_def)
  show ?thesis
    unfolding call_denoise_def Let_def
    by (auto simp: is_denoise_event_def
        intro!: adds_bind adds_emit adds_modify
                adds_weaken[OF adds_plan_chunks p] adds_weaken[OF adds_prepare_latents r]
                adds_weaken[OF adds_chunk_loop i] adds_weaken[OF adds_restore_video f])
qed

lemma call_denoise_Inr:
  assumes "call_denoise self h a s w = (w', Inr frames)"
  shows "\<exists>wc n all_latents chunks es_plan es_chunks es_restore.
      arg_num_frames a \<noteq> 0
    \<and> wc = (if add_audio_layer (unet self)
             then feature2chunks (audio_encoder self)
                    (audio2feat (audio_encoder self) (arg_audio_path a)) (arg_video_fps a)
             else [])
    \<and> n = (if add_audio_layer (unet self)
            then min (int (length (su_faces s))) (int (length wc))
            else int (length (su_faces s))) div arg_num_frames a
    \<and> all_latents =
         map (\<lambda>fs. replicate (nat (arg_num_frames a * n))
                     (tmap (\<lambda>x. x * init_noise_sigma (scheduler self)) (hd fs)))
           (randn_values h (rng w) 1 (nat (latent_channels (vae self))) 1
              (nat (su_height s div vae_scale_factor self))
              (nat (su_width s div vae_scale_factor self)))
    \<and> length chunks = nat n \<and> chunks \<noteq> []
    \<and> (\<forall>k<nat n. \<exists>w1 w2.
          inference self h (su_image_processor s)
            (run_context self a (su_faces s) wc all_latents (su_height s) (su_width s)) k w1
          = (w2, Inr (chunks ! k)))
    \<and> length frames = length (concat chunks)
    \<and> temp_dir w' = temp_dir w
    \<and> trace w' = trace w @ [EvSetTimesteps (arg_num_inference_steps a)] @ es_plan
         @ [EvRandn [1, latent_channels (vae self), 1,
                     su_height s div vae_scale_factor self,
                     su_width s div vae_scale_factor self]]
         @ es_chunks @ es_restore
    \<and> list_all is_plan_event es_plan
    \<and> list_all (\<lambda>e. is_inference e \<or> is_callback e) es_chunks
    \<and> filter is_inference es_chunks = map EvInference [0..<nat n]
    \<and> list_all is_restore_event es_restore
    \<and> es_plan = (if add_audio_layer (unet self)
                 then [EvAudio2Feat (arg_audio_path a), EvFeature2Chunks (arg_video_fps a)]
                 else [])"
proof -
  let ?ip = "su_image_processor s"
  from assms obtain w1 wc n w2 all_latents w3 chunks w4 synced where
    plan: "plan_chunks self a (su_faces s)
             (w\<lparr>trace := trace w @ [EvSetTimesteps (arg_num_inference_steps a)],
                 self_video_fps := arg_video_fps a\<rparr>) = (w1, Inr (wc, n))" and
    lat: "prepare_latents self h 1 (arg_num_frames a * n) (latent_channels (vae self))
            (su_height s) (su_width s) w1 = (w2, Inr all_latents)" and
    loop: "for_each (\<lambda>i. bind (emit (EvInference i)) (\<lambda>_. inference self h ?ip
             (run_context self a (su_faces s) wc all_latents (su_height s) (su_width s)) i))
             (py_range n) w2 = (w3, Inr chunks)" and
    cat: "cat_videos chunks = Inr synced" and
    rest: "restore_video h ?ip synced (su_original_video_frames s) (su_boxes s)
             (su_affine_matrices s) w3 = (w', Inr frames)"
    unfolding call_denoise_def Let_def
    by (auto simp: bind_Inr_iff split: prod.splits)
  let ?w0 = "w\<lparr>trace := trace w @ [EvSetTimesteps (arg_num_inference_steps a)],
                self_video_fps := arg_video_fps a\<rparr>"
  let ?c = "run_context self a (su_faces s) wc all_latents (su_height s) (su_width s)"
  note pl = plan_chunks_Inr[OF plan]
  define es_plan where
    "es_plan = (if add_audio_layer (unet self)
                then [EvAudio2Feat (arg_audio_path a), EvFeature2Chunks (arg_video_fps a)]
                else [])"
  have t1a: "trace w1 = trace ?w0 @ es_plan"
    using pl(5) by (simp add: es_plan_def)
  have t1b: "list_all is_plan_event es_plan"
    by (simp add: es_plan_def)
  have t1c: "temp_dir w1 = temp_dir ?w0"
    using adds_plan_chunks[of self a "su_faces s"] plan unfolding adds_def by blast
  note t1 = t1a t1b t1c
  note pr = prepare_latents_Inr[OF lat]
  from adds_chunk_loop[of self h ?ip ?c "py_range n"] loop obtain es_chunks where
    t3: "trace w3 = trace w2 @ es_chunks"
        "list_all (\<lambda>e. is_inference e \<or> is_callback e) es_chunks"
        "temp_dir w3 = temp_dir w2"
    unfolding adds_def by blast
  from chunk_loop_trace[OF loop] t3(1) have
    f3: "filter is_inference es_chunks = map EvInference [0..<nat n]"
    by (auto simp: py_range_def)
  from for_each_Inr[OF loop] have
    len: "length chunks = nat n" and
    each: "\<forall>k<nat n. \<exists>w1 w2. inference self h ?ip ?c k w1 = (w2, Inr (chunks ! k))"
    by (simp_all add: py_range_def bind_Inr_iff) blast
  from cat have ne: "chunks \<noteq> []" and syn: "synced = concat chunks"
    by (auto simp: cat_videos_def split: if_splits)
  from adds_restore_video[of h ?ip synced] rest obtain es_restore where
    t4: "trace w' = trace w3 @ es_restore" "list_all is_restore_event es_restore"
        "temp_dir w' = temp_dir w3"
    unfolding adds_def by blast
  from restore_video_Inr[OF rest] syn have fl: "length frames = length (concat chunks)"
    by simp
  have al: "all_latents =
         map (\<lambda>fs. replicate (nat (arg_num_frames a * n))
                     (tmap (\<lambda>x. x * init_noise_sigma (scheduler self)) (hd fs)))
           (randn_values h (rng w) 1 (nat (latent_channels (vae self))) 1
              (nat (su_height s div vae_scale_factor self))
              (nat (su_width s div vae_scale_factor self)))"
    using pr(3) pl(4) by simp
  have tr: "trace w' = trace w @ [EvSetTimesteps (arg_num_inference_steps a)] @ es_plan
         @ [EvRandn [1, latent_channels (vae self), 1,
                     su_height s div vae_scale_factor self,
                     su_width s div vae_scale_factor self]]
         @ es_chunks @ es_restore"
    using t1(1) pr(4) t3(1) t4(1) by simp
  have td: "temp_dir w' = temp_dir w"
    using t1(3) pr(5) t3(3) t4(3) by simp
  show ?thesis
    using pl(1) pl(2) pl(3) al len ne each fl td tr t1(2) t3(2) f3 t4(2) es_plan_def
    by blast
qed


lemma affine_loop:
  assumes "for_each (\<lambda>frame. bind (emit EvAffineTransform) (\<lambda>_.
              case affine_transform ip frame of
                None \<Rightarrow> raise CollaboratorError
              | Some r \<Rightarrow> ret r)) frames w = (w', r)"
  shows "\<exists>k\<le>length frames. w' = w\<lparr>trace := trace w @ replicate k EvAffineTransform\<rparr>
           \<and> (case r of
                 Inr rs \<Rightarrow> k = length frames \<and> map (affine_transform ip) frames = map Some rs
               | Inl e \<Rightarrow> e = CollaboratorError)"
  using assms
proof (induction frames arbitrary: w w' r)
  case Nil
  then show ?case by auto
next
  case (Cons x xs)
  let ?f = "\<lambda>frame. bind (emit EvAffineTransform) (\<lambda>_.
              case affine_transform ip frame of
                None \<Rightarrow> raise CollaboratorError
              | Some r \<Rightarrow> ret r)"
  let ?w1 = "w\<lparr>trace := trace w @ [EvAffineTransform]\<rparr>"
  show ?case
  proof (cases "affine_transform ip x")
    case None
    with Cons.prems have "w' = ?w1" "r = Inl CollaboratorError"
      by (auto simp: bind_eq)
    then show ?thesis
      by (intro exI[of _ 1]) simp
  next
    case (Some y)
    obtain w2 r2 where 2: "for_each ?f xs ?w1 = (w2, r2)" by (cases "for_each ?f xs ?w1")
    from Cons.IH[OF 2] obtain k where k: "k \<le> length xs"
      "w2 = ?w1\<lparr>trace := trace ?w1 @ replicate k EvAffineTransform\<rparr>"
      "case r2 of Inr rs \<Rightarrow> k = length xs \<and> map (affine_transform ip) xs = map Some rs
                | Inl e \<Rightarrow> e = CollaboratorError"
      by blast
    from Cons.prems Some 2 have w': "w' = w2"
      and r: "r = (case r2 of Inl e \<Rightarrow> Inl e | Inr rs \<Rightarrow> Inr (y # rs))"
      by (auto simp: bind_eq split: sum.splits)
    show ?thesis
      using k w' r Some
      by (intro exI[of _ "Suc k"]) (auto split: sum.splits)
  qed
qed

lemma call_setup_cases:
  assumes "call_setup self h a w = (w', r)"
  shows "temp_dir w' = temp_dir w \<and> rng w' = rng w \<and> self_superres w' = arg_superres a
       \<and> ((\<not> ffmpeg_installed h \<and> r = Inl FileNotFoundError
             \<and> trace w' = trace w @ [EvCheckFfmpeg])
          \<or> (ffmpeg_installed h \<and> r = Inl CollaboratorError
             \<and> (\<exists>k\<le>length (read_video h (arg_video_path a)).
                   trace w' = trace w @ setup_events h a k))
          \<or> (ffmpeg_installed h \<and> r = Inl RuntimeError
             \<and> trace w' = trace w @ setup_events h a (length (read_video h (arg_video_path a))))
          \<or> (ffmpeg_installed h
             \<and> trace w' = trace w @ setup_events h a (length (read_video h (arg_video_path a)))
                            @ [EvReadAudio (arg_audio_path a)]
             \<and> (case check_inputs (default_size self (arg_height a))
                        (default_size self (arg_width a)) (arg_callback_steps a) of
                  Inl e \<Rightarrow> r = Inl e
                | Inr u \<Rightarrow> \<exists>s. r = Inr s
                    \<and> su_is_train s = training w
                    \<and> su_image_processor s = ImageProcessor h (arg_height a) (arg_mask a)
                    \<and> length (su_faces s) = length (read_video h (arg_video_path a))
                    \<and> su_faces s \<noteq> []
                    \<and> su_original_video_frames s = read_video h (arg_video_path a)
                    \<and> su_audio_samples s = read_audio h (arg_audio_path a)
                    \<and> su_height s = default_size self (arg_height a)
                    \<and> su_width s = default_size self (arg_width a))))"
proof (cases "ffmpeg_installed h")
  case False
  with assms show ?thesis
    by (auto simp: call_setup_def bind_eq)
next
  case True
  let ?ip = "ImageProcessor h (arg_height a) (arg_mask a)"
  let ?frames = "read_video h (arg_video_path a)"
  let ?f = "\<lambda>frame. bind (emit EvAffineTransform) (\<lambda>_.
              case affine_transform ?ip frame of
                None \<Rightarrow> raise CollaboratorError
              | Some r \<Rightarrow> ret r)"
  let ?w0 = "w\<lparr>self_superres := arg_superres a, training := False,
               trace := trace w @ [EvCheckFfmpeg, EvImageProcessor (arg_height a) (arg_mask a),
                                   EvReadVideo (arg_video_path a)]\<rparr>"
  obtain w1 r1 where loop: "for_each ?f ?frames ?w0 = (w1, r1)"
    by (cases "for_each ?f ?frames ?w0")
  from affine_loop[OF loop] obtain k where k: "k \<le> length ?frames"
    "w1 = ?w0\<lparr>trace := trace ?w0 @ replicate k EvAffineTransform\<rparr>"
    "case r1 of Inr rs \<Rightarrow> k = length ?frames \<and> map (affine_transform ?ip) ?frames = map Some rs
              | Inl e \<Rightarrow> e = CollaboratorError"
    by blast
  show ?thesis
  proof (cases r1)
    case (Inl e)
    with k have e: "e = CollaboratorError" by simp
    from assms True loop Inl e have "w' = w1" "r = Inl CollaboratorError"
      by (auto simp: call_setup_def affine_transform_video_def bind_eq Let_def)
    with k True show ?thesis
      by (auto simp: setup_events_def)
  next
    case (Inr rs)
    with k have kk: "k = length ?frames" and rs: "length rs = length ?frames"
      by (auto dest: arg_cong[where f = length])
    show ?thesis
    proof (cases "stack (map fst rs)")
      case (Inl e)
      then have e: "e = RuntimeError"
        by (auto simp: stack_def split: list.splits if_splits)
      from assms True loop Inr Inl e have "w' = w1" "r = Inl RuntimeError"
        by (auto simp: call_setup_def affine_transform_video_def bind_eq Let_def)
      with k kk True show ?thesis
        by (auto simp: setup_events_def)
    next
      case st: (Inr faces)
      then have f: "faces = map fst rs" "faces \<noteq> []"
        by (auto simp: stack_def split: list.splits if_splits)
      from assms True loop Inr st
      have w': "w' = w1\<lparr>trace := trace w1 @ [EvReadAudio (arg_audio_path a)]\<rparr>"
        by (auto simp: call_setup_def affine_transform_video_def bind_eq Let_def
                 split: sum.splits)
      from assms True loop Inr st
      have r: "r = (case check_inputs (default_size self (arg_height a))
                        (default_size self (arg_width a)) (arg_callback_steps a) of
                  Inl e \<Rightarrow> Inl e
                | Inr u \<Rightarrow> Inr \<lparr> su_is_train = training w, su_image_processor = ?ip,
                     su_faces = faces, su_original_video_frames = ?frames,
                     su_boxes = map (fst \<circ> snd) rs, su_affine_matrices = map (snd \<circ> snd) rs,
                     su_audio_samples = read_audio h (arg_audio_path a),
                     su_height = default_size self (arg_height a),
                     su_width = default_size self (arg_width a) \<rparr>)"
        by (auto simp: call_setup_def affine_transform_video_def bind_eq Let_def
                 split: sum.splits)
      show ?thesis
        using w' r k kk True f rs
        by (auto simp: setup_events_def split: sum.splits)
    qed
  qed
qed

lemma write_outputs_cases:
  assumes "write_outputs a frames audio is_train w = (w', r)"
  shows "(arg_video_fps a = 0 \<and> r = Inl ZeroDivisionError \<and> w' = w)
       \<or> (arg_video_fps a \<noteq> 0 \<and> r = Inr ()
          \<and> trace w' = trace w @ (if temp_dir w \<noteq> None then [EvRmtree ''temp''] else [])
               @ [EvMakedirs ''temp'',
                  EvWriteVideo ''temp/video.mp4'' (length frames) 25,
                  EvWriteAudio ''temp/audio.wav''
                    (length (py_slice audio 0
                       (py_int (real (length frames) / real_of_int (arg_video_fps a)
                                  * real_of_int (arg_audio_sample_rate a)))))
                    (arg_audio_sample_rate a),
                  EvFfmpeg (arg_video_out_path a)]
          \<and> temp_dir w' = Some
               [(''video.mp4'', VideoFile frames 25),
                (''audio.wav'', AudioFile
                    (py_slice audio 0
                       (py_int (real (length frames) / real_of_int (arg_video_fps a)
                                  * real_of_int (arg_audio_sample_rate a))))
                    (arg_audio_sample_rate a))])"
  using assms
  by (auto simp: write_outputs_def bind_eq Let_def split: if_splits)


lemma adds_get: "adds P (\<lambda>w. (w, Inr (g w)))"
  by (simp add: adds_def)

lemma adds_affine_transform_video:
  "adds is_setup_event (affine_transform_video h ip path)"
  unfolding affine_transform_video_def Let_def
  by (auto split: option.splits intro!: adds_bind adds_emit adds_for_each)

lemma adds_call_setup: "adds is_setup_event (call_setup self h a)"
  unfolding call_setup_def Let_def
  by (auto split: prod.splits
      intro!: adds_bind adds_emit adds_modify adds_get adds_affine_transform_video)

lemma py_bound_id: "0 \<le> a \<Longrightarrow> a \<le> n \<Longrightarrow> py_bound n a = nat a"
  by (simp add: py_bound_def Let_def)

lemma py_slice_window:
  assumes "0 \<le> a" and "a \<le> b" and "b \<le> int (length xs)"
  shows "py_slice xs a b = map ((!) xs) [nat a..<nat b]"
    and "length (py_slice xs a b) = nat (b - a)"
proof -
  have s: "py_bound (int (length xs)) a = nat a" "py_bound (int (length xs)) b = nat b"
    using assms by (simp_all add: py_bound_id)
  have le: "nat b \<le> length xs" using assms by simp
  have "py_slice xs a b = take (nat b - nat a) (drop (nat a) xs)"
    using s by (simp add: py_slice_def Let_def)
  also have "\<dots> = map ((!) xs) [nat a..<nat b]"
    using le by (auto intro!: nth_equalityI)
  finally show "py_slice xs a b = map ((!) xs) [nat a..<nat b]" .
  then show "length (py_slice xs a b) = nat (b - a)"
    using assms by simp
qed

lemma py_slice_prefix:
  "0 \<le> k \<Longrightarrow> py_slice xs 0 k = take (nat k) xs"
  by (auto simp: py_slice_def py_bound_def Let_def)

lemma chunk_window:
  assumes "0 < N" and "(int i + 1) * N \<le> int (length xs)"
  shows "py_slice xs (int i * N) ((int i + 1) * N) = map ((!) xs) [i * nat N..<(i + 1) * nat N]"
    and "length (py_slice xs (int i * N) ((int i + 1) * N)) = nat N"
proof -
  have a: "0 \<le> int i * N" using assms(1) by simp
  have b: "int i * N \<le> (int i + 1) * N" using assms(1) by (simp add: algebra_simps)
  have n1: "nat (int i * N) = i * nat N" using assms(1) by (simp add: nat_mult_distrib)
  have n2: "nat ((int i + 1) * N) = (i + 1) * nat N"
    using assms(1) by (simp add: nat_mult_distrib nat_add_distrib)
  from py_slice_window[OF a b assms(2)] n1 n2
  show "py_slice xs (int i * N) ((int i + 1) * N) = map ((!) xs) [i * nat N..<(i + 1) * nat N]"
    by simp
  from py_slice_window(2)[OF a b assms(2)]
  show "length (py_slice xs (int i * N) ((int i + 1) * N)) = nat N"
    by (simp add: algebra_simps)
qed

lemma length_indices: "length (indices s) = prod_list s"
proof (induction s)
  case Nil show ?case by simp
next
  case (Cons d ds)
  have "length (concat (map (\<lambda>i. map ((#) i) (indices ds)) [0..<d])) = d * prod_list ds"
    using Cons by (induction d) (simp_all add: )
  then show ?case by simp
qed

lemma set_indices: "idx \<in> set (indices s) \<longleftrightarrow> valid_index s idx"
proof (induction s arbitrary: idx)
  case Nil show ?case by (auto simp: valid_index_def)
next
  case (Cons d ds)
  show ?case
  proof (cases idx)
    case Nil then show ?thesis by (auto simp: valid_index_def)
  next
    case (Cons i js)
    then show ?thesis using Cons.IH[of js] by (auto simp: valid_index_def)
  qed
qed

lemma nth_concat_uniform:
  "(\<And>x. x \<in> set xss \<Longrightarrow> length x = m) \<Longrightarrow> i < length xss \<Longrightarrow> k < m \<Longrightarrow>
     concat xss ! (i * m + k) = xss ! i ! k"
proof (induction xss arbitrary: i)
  case Nil then show ?case by simp
next
  case (Cons xs xss)
  show ?case
  proof (cases i)
    case 0 then show ?thesis using Cons.prems by (simp add: nth_append)
  next
    case (Suc i')
    have "concat (xs # xss) ! (i * m + k) = concat xss ! (i' * m + k)"
      using Suc Cons.prems(1)[of xs] by (simp add: nth_append)
    also have "\<dots> = xss ! i' ! k"
      using Cons.IH[of i'] Cons.prems Suc by simp
    finally show ?thesis using Suc by simp
  qed
qed

lemma flat_index_valid:
  "valid_index s idx \<Longrightarrow> flat_index s idx < prod_list s \<and> indices s ! flat_index s idx = idx"
proof (induction s arbitrary: idx)
  case Nil then show ?case by (simp add: valid_index_def)
next
  case (Cons d ds)
  from Cons.prems obtain i js where idx: "idx = i # js" and i: "i < d" and js: "valid_index ds js"
    by (cases idx) (auto simp: valid_index_def)
  from Cons.IH[OF js] have ih: "flat_index ds js < prod_list ds" "indices ds ! flat_index ds js = js"
    by simp_all
  have i': "(if d = 1 then 0 else i) = i" using i by auto
  let ?m = "prod_list ds"
  have "i * ?m + flat_index ds js < i * ?m + ?m" using ih(1) by simp
  also have "\<dots> = (i + 1) * ?m" by simp
  also have "\<dots> \<le> d * ?m" using i by (intro mult_le_mono1) simp
  finally have lt: "flat_index (d # ds) idx < prod_list (d # ds)"
    using idx i' by simp
  let ?xss = "map (\<lambda>i. map ((#) i) (indices ds)) [0..<d]"
  have "concat ?xss ! (i * ?m + flat_index ds js) = ?xss ! i ! flat_index ds js"
    by (rule nth_concat_uniform) (use i ih(1) in \<open>auto simp: length_indices\<close>)
  also have "\<dots> = i # js" using i ih by (simp add: length_indices)
  finally show ?case using lt idx i' by simp
qed


lemma flat_index_indices:
  "k < prod_list s \<Longrightarrow> valid_index s (indices s ! k) \<and> flat_index s (indices s ! k) = k"
proof (induction s arbitrary: k)
  case Nil then show ?case by (simp add: valid_index_def)
next
  case (Cons d ds)
  let ?m = "prod_list ds"
  from Cons.prems have km: "k < d * ?m" by simp
  then have m: "0 < ?m" by (cases "?m = 0") auto
  have q: "k div ?m < d" using km m by (simp add: less_mult_imp_div_less mult.commute)
  have r: "k mod ?m < ?m" using m by simp
  let ?xss = "map (\<lambda>i. map ((#) i) (indices ds)) [0..<d]"
  have "concat ?xss ! (k div ?m * ?m + k mod ?m) = ?xss ! (k div ?m) ! (k mod ?m)"
    by (rule nth_concat_uniform) (use q r in \<open>auto simp: length_indices\<close>)
  then have e: "indices (d # ds) ! k = (k div ?m) # (indices ds ! (k mod ?m))"
    using q r by (simp add: length_indices)
  from Cons.IH[OF r] have ih: "valid_index ds (indices ds ! (k mod ?m))"
    "flat_index ds (indices ds ! (k mod ?m)) = k mod ?m" by simp_all
  have d1: "(if d = 1 then 0 else k div ?m) = k div ?m" using q by auto
  show ?case unfolding e using ih q d1 by (simp add: valid_index_def)
qed

lemma flat_index_clamp: "flat_index s (clamp s idx) = flat_index s idx"
proof (induction s idx rule: flat_index.induct)
  case (1 d ds i js)
  then show ?case by (simp add: clamp_def)
qed (simp_all add: clamp_def)

lemma clamp_valid:
  "expands_to s s' \<Longrightarrow> valid_index s' idx \<Longrightarrow> valid_index s (clamp s idx)"
  unfolding expands_to_def valid_index_def clamp_def
proof (induction s s' arbitrary: idx rule: list_induct2')
  case (4 d ds e es)
  then obtain i js where idx: "idx = i # js" by (cases idx) auto
  with 4 show ?case by auto
qed auto

lemma flat_index_expands:
  "expands_to s0 s1 \<Longrightarrow> length idx = length s1 \<Longrightarrow>
     flat_index s0 (clamp s1 idx) = flat_index s0 idx"
  unfolding expands_to_def clamp_def
proof (induction s0 s1 arbitrary: idx rule: list_induct2')
  case (4 d ds e es)
  then obtain i js where idx: "idx = i # js" by (cases idx) auto
  with 4 show ?case by auto
qed auto

lemma valid_index_length: "valid_index s idx \<Longrightarrow> length idx = length s"
  by (simp add: valid_index_def list_all2_lengthD)

lemma expands_to_length: "expands_to s s' \<Longrightarrow> length s = length s'"
  by (simp add: expands_to_def list_all2_lengthD)

lemma expands_to_refl [simp]: "expands_to s s"
  by (simp add: expands_to_def list_all2_same)

lemma expands_to_trans: "expands_to s0 s1 \<Longrightarrow> expands_to s1 s2 \<Longrightarrow> expands_to s0 s2"
  unfolding expands_to_def
  by (erule (1) list_all2_trans[rotated 1]) auto

lemma flat_index_bound:
  assumes "expands_to s s'" "valid_index s' idx"
  shows "flat_index s idx < prod_list s"
  using flat_index_valid[OF clamp_valid[OF assms]] flat_index_clamp[of s idx] by simp

lemma built_read:
  assumes "expands_to s1 s" and "valid_index s idx"
  shows "tensor_at (Tensor s1 (map g (indices s1))) idx = g (clamp s1 idx)"
proof -
  from flat_index_valid[OF clamp_valid[OF assms]]
  have "flat_index s1 idx < prod_list s1" "indices s1 ! flat_index s1 idx = clamp s1 idx"
    by (simp_all add: flat_index_clamp)
  then show ?thesis by (simp add: tensor_at_def length_indices)
qed

lemma broadcast_shapes_expands:
  assumes "broadcast_shapes s s' = Some b"
  shows "expands_to s b" and "expands_to s' b"
proof -
  from assms have c: "list_all2 (\<lambda>d e. d = e \<or> d = 1 \<or> e = 1) s s'"
    and b: "b = map2 (\<lambda>d e. if d = 1 then e else d) s s'"
    by (auto simp: broadcast_shapes_def split: if_splits)
  from c show "expands_to s b" unfolding b expands_to_def
    by (induction s s' rule: list_all2_induct) auto
  from c show "expands_to s' b" unfolding b expands_to_def
    by (induction s s' rule: list_all2_induct) auto
qed

lemma tbroadcast2_Inr:
  assumes "tbroadcast2 f t u = Inr r"
  shows "broadcast_shapes (shape t) (shape u) = Some (shape r)"
    and "vals r = map (\<lambda>idx. f (tensor_at t idx) (tensor_at u idx)) (indices (shape r))"
    and "wf_tensor r"
  using assms by (auto simp: tbroadcast2_def wf_tensor_def length_indices split: option.splits)

lemma tbroadcast2_read:
  assumes r: "tbroadcast2 f t u = Inr r" and e: "expands_to (shape r) s" and v: "valid_index s idx"
  shows "tensor_at r idx = f (tensor_at t idx) (tensor_at u idx)"
proof -
  note b = tbroadcast2_Inr[OF r]
  note x = broadcast_shapes_expands[OF b(1)]
  have l: "length idx = length (shape r)"
    using valid_index_length[OF v] expands_to_length[OF e] by simp
  have "r = Tensor (shape r) (map (\<lambda>idx. f (tensor_at t idx) (tensor_at u idx)) (indices (shape r)))"
    using b(2) by (cases r) simp
  then have "tensor_at r idx = f (tensor_at t (clamp (shape r) idx)) (tensor_at u (clamp (shape r) idx))"
    using built_read[OF e v, of "\<lambda>idx. f (tensor_at t idx) (tensor_at u idx)"] by simp
  then show ?thesis
    using flat_index_expands[OF x(1) l] flat_index_expands[OF x(2) l]
    by (simp add: tensor_at_def)
qed

lemma tmap_read:
  assumes "wf_tensor t" and "expands_to (shape t) s" and "valid_index s idx"
  shows "tensor_at (tmap g t) idx = g (tensor_at t idx)"
  using flat_index_bound[OF assms(2,3)] assms(1)
  by (simp add: tensor_at_def tmap_def wf_tensor_def)

lemma paste_frame:
  assumes a: "tbroadcast2 (*) d m = Inr a"
    and b: "tbroadcast2 (*) p (tmap (\<lambda>x. 1 - x) m) = Inr b"
    and out: "tbroadcast2 (+) a b = Inr out"
    and wf: "wf_tensor m"
    and v: "valid_index (shape out) idx"
  shows "tensor_at out idx
           = tensor_at d idx * tensor_at m idx + tensor_at p idx * (1 - tensor_at m idx)"
proof -
  note xo = broadcast_shapes_expands[OF tbroadcast2_Inr(1)[OF out]]
  note xa = broadcast_shapes_expands[OF tbroadcast2_Inr(1)[OF a]]
  note xb = broadcast_shapes_expands[OF tbroadcast2_Inr(1)[OF b]]
  have 1: "tensor_at out idx = tensor_at a idx + tensor_at b idx"
    by (rule tbroadcast2_read[OF out expands_to_refl v])
  have 2: "tensor_at a idx = tensor_at d idx * tensor_at m idx"
    by (rule tbroadcast2_read[OF a xo(1) v])
  have 3: "tensor_at b idx = tensor_at p idx * tensor_at (tmap (\<lambda>x. 1 - x) m) idx"
    by (rule tbroadcast2_read[OF b xo(2) v])
  have "expands_to (shape m) (shape out)"
    using expands_to_trans[OF xa(2) xo(1)] .
  from tmap_read[OF wf this v] have 4: "tensor_at (tmap (\<lambda>x. 1 - x) m) idx = 1 - tensor_at m idx" .
  show ?thesis using 1 2 3 4 by simp
qed

lemma collect_Inr:
  "collect xs = Inr ys \<Longrightarrow> length ys = length xs \<and> (\<forall>k<length xs. xs ! k = Inr (ys ! k))"
proof (induction xs arbitrary: ys)
  case Nil then show ?case by simp
next
  case (Cons x xs)
  from Cons.prems obtain y ys' where x: "x = Inr y" and c: "collect xs = Inr ys'" and ys: "ys = y # ys'"
    by (auto split: sum.splits)
  from Cons.IH[OF c] show ?case using x ys by (auto simp: nth_Cons split: nat.splits)
qed

lemma vbroadcast2_Inr:
  assumes "vbroadcast2 f v v' = Inr out"
  shows "length out = (if length v = 1 then length v' else length v)"
    and "length v = length v' \<or> length v = 1 \<or> length v' = 1"
    and "\<forall>k<length out. tbroadcast2 f (frame_of v k) (frame_of v' k) = Inr (out ! k)"
proof -
  from assms have c: "length v = length v' \<or> length v = 1 \<or> length v' = 1"
    and r: "collect (map (\<lambda>k. tbroadcast2 f (frame_of v k) (frame_of v' k))
                   [0..<(if length v = 1 then length v' else length v)]) = Inr out"
    by (auto simp: vbroadcast2_def split: if_splits)
  from collect_Inr[OF r] show "length out = (if length v = 1 then length v' else length v)"
    and "\<forall>k<length out. tbroadcast2 f (frame_of v k) (frame_of v' k) = Inr (out ! k)"
    by auto
  from c show "length v = length v' \<or> length v = 1 \<or> length v' = 1" .
qed

lemma vbroadcast2_frame:
  assumes r: "vbroadcast2 f v v' = Inr out" and k: "k < n" and n: "length out = n \<or> length out = 1"
  shows "tbroadcast2 f (frame_of v k) (frame_of v' k) = Inr (frame_of out k)"
proof (cases "length out = 1")
  case True
  note b = vbroadcast2_Inr[OF r]
  from True b(1,2) have l: "length v = 1" "length v' = 1" by (auto split: if_splits)
  from b(3) True have "tbroadcast2 f (frame_of v 0) (frame_of v' 0) = Inr (out ! 0)" by simp
  then show ?thesis using True l by (simp add: frame_of_def)
next
  case False
  with n k have "k < length out" by simp
  with vbroadcast2_Inr(3)[OF r] False show ?thesis by (simp add: frame_of_def)
qed

lemma frame_of_vmap:
  "(if length v = 1 then 0 else k) < length v \<Longrightarrow> frame_of (vmap g v) k = tmap g (frame_of v k)"
  by (simp add: frame_of_def vmap_def)

lemma vbroadcast2_in_range:
  assumes r: "vbroadcast2 f v v' = Inr out" and k: "k < n" and n: "length out = n \<or> length out = 1"
  shows "(if length v = 1 then 0 else k) < length v" and "(if length v' = 1 then 0 else k) < length v'"
  using vbroadcast2_Inr(1,2)[OF r] k n by (auto split: if_splits)

lemma wf_video_frame:
  "wf_video v \<Longrightarrow> (if length v = 1 then 0 else k) < length v \<Longrightarrow> wf_tensor (frame_of v k)"
  by (simp add: wf_video_def frame_of_def list_all_length)

lemma wf_video_vmap: "wf_video v \<Longrightarrow> wf_video (vmap g v)"
  by (simp add: wf_video_def vmap_def list_all_length tmap_def wf_tensor_def)

lemma paste_Inr:
  assumes "paste_surrounding_pixels_back h decoded pixel_values masks = Inr out"
  obtains a b where
    "vbroadcast2 (*) decoded (vmap (to_weight_dtype h) masks) = Inr a"
    "vbroadcast2 (*) (vmap (to_weight_dtype h) pixel_values) (vmap (\<lambda>m. 1 - m) (vmap (to_weight_dtype h) masks)) = Inr b"
    "vbroadcast2 (+) a b = Inr out"
  using assms by (auto simp: paste_surrounding_pixels_back_def Let_def split: sum.splits)

lemma paste_read:
  assumes p: "paste_surrounding_pixels_back h decoded pixel_values masks = Inr out"
    and wf: "wf_video masks"
    and f: "f < length out"
    and v: "valid_index (shape (out ! f)) idx"
  shows "tensor_at (out ! f) idx
           = tensor_at (frame_of decoded f) idx * tensor_at (frame_of (vmap (to_weight_dtype h) masks) f) idx
             + tensor_at (frame_of (vmap (to_weight_dtype h) pixel_values) f) idx
               * (1 - tensor_at (frame_of (vmap (to_weight_dtype h) masks) f) idx)"
proof (rule paste_Inr[OF p], goal_cases)
  case (1 a b)
  let ?m = "vmap (to_weight_dtype h) masks" and ?p = "vmap (to_weight_dtype h) pixel_values"
  note o = vbroadcast2_Inr[OF 1(3)]
  have la: "length a = length out \<or> length a = 1" and lb: "length b = length out \<or> length b = 1"
    using o(1,2) by (auto split: if_splits)
  from o(3) f have of: "tbroadcast2 (+) (frame_of a f) (frame_of b f) = Inr (out ! f)" by simp
  have af: "tbroadcast2 (*) (frame_of decoded f) (frame_of ?m f) = Inr (frame_of a f)"
    by (rule vbroadcast2_frame[OF 1(1) f la])
  have bf0: "tbroadcast2 (*) (frame_of ?p f) (frame_of (vmap (\<lambda>m. 1 - m) ?m) f) = Inr (frame_of b f)"
    by (rule vbroadcast2_frame[OF 1(2) f lb])
  have rng: "(if length ?m = 1 then 0 else f) < length ?m"
    by (rule vbroadcast2_in_range(2)[OF 1(1) f la])
  have bf: "tbroadcast2 (*) (frame_of ?p f) (tmap (\<lambda>x. 1 - x) (frame_of ?m f)) = Inr (frame_of b f)"
    using bf0 frame_of_vmap[OF rng, of "\<lambda>m. 1 - m"] by simp
  have wfm: "wf_tensor (frame_of ?m f)"
    by (rule wf_video_frame[OF wf_video_vmap[OF wf] rng])
  show ?case by (rule paste_frame[OF af bf of wfm v])
qed


lemma tensor_eqI:
  assumes "wf_tensor t" "wf_tensor u" "shape t = shape u"
    and "\<And>idx. valid_index (shape t) idx \<Longrightarrow> tensor_at t idx = tensor_at u idx"
  shows "t = u"
proof -
  have "vals t = vals u"
  proof (rule nth_equalityI)
    show "length (vals t) = length (vals u)" using assms(1-3) by (simp add: wf_tensor_def)
  next
    fix k assume "k < length (vals t)"
    then have k: "k < prod_list (shape t)" using assms(1) by (simp add: wf_tensor_def)
    from flat_index_indices[OF k] assms(4)[of "indices (shape t) ! k"] assms(3)
    show "vals t ! k = vals u ! k" by (simp add: tensor_at_def)
  qed
  with assms(3) show ?thesis by (simp add: tensor.expand)
qed

lemma zero_read:
  assumes "wf_tensor m" "expands_to (shape m) s" "valid_index s idx" "\<forall>x \<in> set (vals m). x = 0"
  shows "tensor_at m idx = 0"
  using flat_index_bound[OF assms(2,3)] assms(1,4)
  by (simp add: tensor_at_def wf_tensor_def)



lemma div_ge_one_pos:
  assumes "1 \<le> (L::int) div N" and "0 \<le> L"
  shows "0 < N" and "N * (L div N) \<le> L"
proof -
  show "0 < N"
  proof (rule ccontr)
    assume "\<not> 0 < N"
    then have "N \<le> 0" by simp
    moreover have "0 < L div N" using assms(1) by simp
    ultimately show False
      using nonneg1_imp_zdiv_pos_iff[OF assms(2), of N] by simp
  qed
  then have "0 \<le> L mod N" by simp
  moreover have "N * (L div N) + L mod N = L" by simp
  ultimately show "N * (L div N) \<le> L" by linarith
qed

lemma vsame_shape_length: "vsame_shape v v' \<Longrightarrow> length v = length v'"
  by (simp add: vsame_shape_def)

lemma vsame_shape_nth:
  "vsame_shape v v' \<Longrightarrow> f < length v \<Longrightarrow>
     shape (v ! f) = shape (v' ! f) \<and> length (vals (v ! f)) = length (vals (v' ! f))"
  by (simp add: vsame_shape_def same_shape_def list_all2_conv_all_nth)

lemma usable_length_nonneg: "0 \<le> usable_length self h a"
  by (simp add: usable_length_def)

lemma call_success:
  assumes "call self h a w = (w', Inr ())"
  obtains s :: run_setup and wc n all_latents chunks frames es_plan es_chunks es_restore where
    "ffmpeg_installed h"
    "check_inputs (default_size self (arg_height a)) (default_size self (arg_width a))
       (arg_callback_steps a) = Inr ()"
    "su_image_processor s = ImageProcessor h (arg_height a) (arg_mask a)"
    "length (su_faces s) = length (read_video h (arg_video_path a))"
    "su_height s = default_size self (arg_height a)"
    "su_width s = default_size self (arg_width a)"
    "wc = (if add_audio_layer (unet self)
           then feature2chunks (audio_encoder self)
                  (audio2feat (audio_encoder self) (arg_audio_path a)) (arg_video_fps a)
           else [])"
    "0 < arg_num_frames a"
    "n = usable_length self h a div arg_num_frames a"
    "1 \<le> n"
    "all_latents =
       map (\<lambda>fs. replicate (nat (arg_num_frames a * n))
                   (tmap (\<lambda>x. x * init_noise_sigma (scheduler self)) (hd fs)))
         (randn_values h (rng w) 1 (nat (latent_channels (vae self))) 1
            (nat (su_height s div vae_scale_factor self))
            (nat (su_width s div vae_scale_factor self)))"
    "length chunks = nat n"
    "\<forall>k<nat n. \<exists>w1 w2.
        inference self h (su_image_processor s)
          (run_context self a (su_faces s) wc all_latents (su_height s) (su_width s)) k w1
        = (w2, Inr (chunks ! k))"
    "length frames = length (concat chunks)"
    "arg_video_fps a \<noteq> 0"
    "trace w' = trace w @ setup_events h a (length (read_video h (arg_video_path a)))
        @ [EvReadAudio (arg_audio_path a), EvSetTimesteps (arg_num_inference_steps a)]
        @ es_plan
        @ [EvRandn [1, latent_channels (vae self), 1,
                    su_height s div vae_scale_factor self,
                    su_width s div vae_scale_factor self]]
        @ es_chunks @ es_restore
        @ (if temp_dir w \<noteq> None then [EvRmtree ''temp''] else [])
        @ [EvMakedirs ''temp'',
           EvWriteVideo ''temp/video.mp4'' (length frames) 25,
           EvWriteAudio ''temp/audio.wav''
             (length (py_slice (read_audio h (arg_audio_path a)) 0
                (py_int (real (length frames) / real_of_int (arg_video_fps a)
                           * real_of_int (arg_audio_sample_rate a)))))
             (arg_audio_sample_rate a),
           EvFfmpeg (arg_video_out_path a)]"
    "list_all is_plan_event es_plan"
    "list_all (\<lambda>e. is_inference e \<or> is_callback e) es_chunks"
    "filter is_inference es_chunks = map EvInference [0..<nat n]"
    "list_all is_restore_event es_restore"
    "temp_dir w' = Some
       [(''video.mp4'', VideoFile frames 25),
        (''audio.wav'', AudioFile
            (py_slice (read_audio h (arg_audio_path a)) 0
               (py_int (real (length frames) / real_of_int (arg_video_fps a)
                          * real_of_int (arg_audio_sample_rate a))))
            (arg_audio_sample_rate a))]"
    "es_plan = (if add_audio_layer (unet self)
                then [EvAudio2Feat (arg_audio_path a), EvFeature2Chunks (arg_video_fps a)]
                else [])"
proof -
  from assms obtain w1 s w2 frames where
    su: "call_setup self h a w = (w1, Inr s)" and
    dn: "call_denoise self h a s w1 = (w2, Inr frames)" and
    wo: "write_outputs a frames (su_audio_samples s) (su_is_train s) w2 = (w', Inr ())"
    by (auto simp: call_def bind_Inr_iff)
  from call_setup_cases[OF su] have
    s1: "temp_dir w1 = temp_dir w" "rng w1 = rng w" and
    s2: "ffmpeg_installed h" and
    s3: "trace w1 = trace w @ setup_events h a (length (read_video h (arg_video_path a)))
                      @ [EvReadAudio (arg_audio_path a)]" and
    s4: "check_inputs (default_size self (arg_height a)) (default_size self (arg_width a))
           (arg_callback_steps a) = Inr ()" and
    s5: "su_image_processor s = ImageProcessor h (arg_height a) (arg_mask a)"
        "length (su_faces s) = length (read_video h (arg_video_path a))"
        "su_audio_samples s = read_audio h (arg_audio_path a)"
        "su_height s = default_size self (arg_height a)"
        "su_width s = default_size self (arg_width a)"
    by (auto split: sum.splits)
  from call_denoise_Inr[OF dn] obtain wc n all_latents chunks es_plan es_chunks es_restore
    where
    d1: "arg_num_frames a \<noteq> 0" and
    d2: "wc = (if add_audio_layer (unet self)
           then feature2chunks (audio_encoder self)
                  (audio2feat (audio_encoder self) (arg_audio_path a)) (arg_video_fps a)
           else [])" and
    d3: "n = (if add_audio_layer (unet self)
            then min (int (length (su_faces s))) (int (length wc))
            else int (length (su_faces s))) div arg_num_frames a" and
    d4: "all_latents =
         map (\<lambda>fs. replicate (nat (arg_num_frames a * n))
                     (tmap (\<lambda>x. x * init_noise_sigma (scheduler self)) (hd fs)))
           (randn_values h (rng w1) 1 (nat (latent_channels (vae self))) 1
              (nat (su_height s div vae_scale_factor self))
              (nat (su_width s div vae_scale_factor self)))" and
    d5: "length chunks = nat n" "chunks \<noteq> []" and
    d6: "\<forall>k<nat n. \<exists>w1 w2.
          inference self h (su_image_processor s)
            (run_context self a (su_faces s) wc all_latents (su_height s) (su_width s)) k w1
          = (w2, Inr (chunks ! k))" and
    d7: "length frames = length (concat chunks)" and
    d8: "temp_dir w2 = temp_dir w1" and
    d9: "trace w2 = trace w1 @ [EvSetTimesteps (arg_num_inference_steps a)] @ es_plan
         @ [EvRandn [1, latent_channels (vae self), 1,
                     su_height s div vae_scale_factor self,
                     su_width s div vae_scale_factor self]]
         @ es_chunks @ es_restore" and
    d10: "list_all is_plan_event es_plan"
         "list_all (\<lambda>e. is_inference e \<or> is_callback e) es_chunks"
         "filter is_inference es_chunks = map EvInference [0..<nat n]"
         "list_all is_restore_event es_restore" and
    d11: "es_plan = (if add_audio_layer (unet self)
                then [EvAudio2Feat (arg_audio_path a), EvFeature2Chunks (arg_video_fps a)]
                else [])"
    by blast
  have n: "n = usable_length self h a div arg_num_frames a"
    using d3 d2 s5(2) by (simp add: usable_length_def)
  have n1: "1 \<le> n" using d5 by (cases "nat n") auto
  have N: "0 < arg_num_frames a"
    using div_ge_one_pos(1)[OF _ usable_length_nonneg] n1 n by blast
  from write_outputs_cases[OF wo] have
    o1: "arg_video_fps a \<noteq> 0" and
    o2: "trace w' = trace w2 @ (if temp_dir w2 \<noteq> None then [EvRmtree ''temp''] else [])
               @ [EvMakedirs ''temp'',
                  EvWriteVideo ''temp/video.mp4'' (length frames) 25,
                  EvWriteAudio ''temp/audio.wav''
                    (length (py_slice (su_audio_samples s) 0
                       (py_int (real (length frames) / real_of_int (arg_video_fps a)
                                  * real_of_int (arg_audio_sample_rate a)))))
                    (arg_audio_sample_rate a),
                  EvFfmpeg (arg_video_out_path a)]" and
    o3: "temp_dir w' = Some
               [(''video.mp4'', VideoFile frames 25),
                (''audio.wav'', AudioFile
                    (py_slice (su_audio_samples s) 0
                       (py_int (real (length frames) / real_of_int (arg_video_fps a)
                                  * real_of_int (arg_audio_sample_rate a))))
                    (arg_audio_sample_rate a))]"
    by auto
  have tr: "trace w' = trace w @ setup_events h a (length (read_video h (arg_video_path a)))
        @ [EvReadAudio (arg_audio_path a), EvSetTimesteps (arg_num_inference_steps a)]
        @ es_plan
        @ [EvRandn [1, latent_channels (vae self), 1,
                    su_height s div vae_scale_factor self,
                    su_width s div vae_scale_factor self]]
        @ es_chunks @ es_restore
        @ (if temp_dir w \<noteq> None then [EvRmtree ''temp''] else [])
        @ [EvMakedirs ''temp'',
           EvWriteVideo ''temp/video.mp4'' (length frames) 25,
           EvWriteAudio ''temp/audio.wav''
             (length (py_slice (read_audio h (arg_audio_path a)) 0
                (py_int (real (length frames) / real_of_int (arg_video_fps a)
                           * real_of_int (arg_audio_sample_rate a)))))
             (arg_audio_sample_rate a),
           EvFfmpeg (arg_video_out_path a)]"
    using o2 d9 s3 d8 s1(1) s5(3) by simp
  have al: "all_latents =
       map (\<lambda>fs. replicate (nat (arg_num_frames a * n))
                   (tmap (\<lambda>x. x * init_noise_sigma (scheduler self)) (hd fs)))
         (randn_values h (rng w) 1 (nat (latent_channels (vae self))) 1
            (nat (su_height s div vae_scale_factor self))
            (nat (su_width s div vae_scale_factor self)))"
    using d4 s1(2) by simp
  have td: "temp_dir w' = Some
       [(''video.mp4'', VideoFile frames 25),
        (''audio.wav'', AudioFile
            (py_slice (read_audio h (arg_audio_path a)) 0
               (py_int (real (length frames) / real_of_int (arg_video_fps a)
                          * real_of_int (arg_audio_sample_rate a))))
            (arg_audio_sample_rate a))]"
    using o3 s5(3) by simp
  show thesis
    by (rule that[of s wc n all_latents chunks frames es_plan es_chunks es_restore]) fact+
qed


lemma filter_none:
  "list_all P es \<Longrightarrow> (\<And>e. P e \<Longrightarrow> \<not> Q e) \<Longrightarrow> filter Q es = []"
  by (induction es) auto

lemma new_events_append [simp]: "trace w' = trace w @ es \<Longrightarrow> new_events w w' = es"
  by (simp add: new_events_def)

lemma setup_events_setup: "list_all is_setup_event (setup_events h a k)"
  by (simp add: setup_events_def list_all_iff)

lemma run_context_simps [simp]:
  "ctx_faces (run_context self a faces wc al hh ww) = faces"
  "ctx_whisper_chunks (run_context self a faces wc al hh ww) = wc"
  "ctx_all_latents (run_context self a faces wc al hh ww) = al"
  "ctx_num_frames (run_context self a faces wc al hh ww) = arg_num_frames a"
  "ctx_guidance_scale (run_context self a faces wc al hh ww) = arg_guidance_scale a"
  "ctx_do_classifier_free_guidance (run_context self a faces wc al hh ww)
     = (1 < arg_guidance_scale a)"
  by (simp_all add: run_context_def Let_def)


lemma superres_step_cases:
  assumes mode: "superres = ''none'' \<or> superres = ''GFPGAN'' \<or> superres = ''CodeFormer''"
    and patch: "0 < face_h" "0 < face_w"
    and step: "superres_step h superres face face_h face_w height width w = (w', r)"
  shows "if superres \<noteq> ''none'' \<and> (int face_h < height \<or> int face_w < width)
         then w' = w\<lparr>trace := trace w @
                  [EvSuperRes superres
                     (max (real_of_int height / real face_h) (real_of_int width / real face_w))]\<rparr>
              \<and> r = (if superres = ''GFPGAN''
                    then apply_gfpgan_superres h face
                           (max (real_of_int height / real face_h) (real_of_int width / real face_w))
                    else apply_codeformer_superres h face
                           (max (real_of_int height / real face_h) (real_of_int width / real face_w)))
         else w' = w \<and> r = Inr face"
proof (cases "int face_h < height \<or> int face_w < width")
  case False
  with step show ?thesis
    by (simp add: superres_step_def)
next
  case smaller: True
  let ?sc = "max (real_of_int height / real face_h) (real_of_int width / real face_w)"
  have lift_eq: "\<And>x. lift x (w\<lparr>trace := trace w @ [EvSuperRes superres ?sc]\<rparr>)
                    = (w\<lparr>trace := trace w @ [EvSuperRes superres ?sc]\<rparr>, x)"
    by (simp add: lift_def ret_def raise_def split: sum.splits)
  from mode consider "superres = ''none''" | "superres = ''GFPGAN''" | "superres = ''CodeFormer''"
    by blast
  then show ?thesis
  proof cases
    case 1
    with step show ?thesis by (simp add: superres_step_def)
  next
    case 2
    have "superres_step h superres face face_h face_w height width w
            = (w\<lparr>trace := trace w @ [EvSuperRes superres ?sc]\<rparr>,
               apply_gfpgan_superres h face ?sc)"
      using 2 smaller patch lift_eq
      by (simp add: superres_step_def Let_def bind_def emit_def)
    with step 2 smaller show ?thesis by simp
  next
    case 3
    have "superres_step h superres face face_h face_w height width w
            = (w\<lparr>trace := trace w @ [EvSuperRes superres ?sc]\<rparr>,
               apply_codeformer_superres h face ?sc)"
      using 3 smaller patch lift_eq
      by (simp add: superres_step_def Let_def bind_def emit_def)
    with step 3 smaller show ?thesis by simp
  qed
qed

lemma restore_face_after_superres:
  assumes "restore_face h ip video_frames boxes affine_matrices (index, face) w = (w', r)"
    and "py_get boxes index = Inr (x1, y1, x2, y2)"
    and "shape face = [c, face_h, face_w]"
  shows "\<exists>w1 r1. superres_step h (self_superres w) face face_h face_w
                   (py_int (y2 - y1)) (py_int (x2 - x1)) w = (w1, r1)
           \<and> (w' = w1 \<or> w' = w1\<lparr>trace := trace w1 @ [EvRestoreImg index]\<rparr>)"
proof -
  let ?st = "superres_step h (self_superres w) face face_h face_w
               (py_int (y2 - y1)) (py_int (x2 - x1)) w"
  obtain w1 r1 where st: "?st = (w1, r1)" by (cases ?st)
  have "w' = w1 \<or> w' = w1\<lparr>trace := trace w1 @ [EvRestoreImg index]\<rparr>"
  proof (cases r1)
    case (Inl e)
    with assms st show ?thesis
      by (simp add: restore_face_def Let_def bind_def lift_def ret_def raise_def)
  next
    case (Inr t)
    with assms st show ?thesis
      by (simp add: restore_face_def Let_def bind_def lift_def ret_def raise_def emit_def
               split: sum.splits)
  qed
  with st show ?thesis by blast
qed





lemma guide_halves:
  assumes "guide g noise_pred = Inr p"
  shows "2 \<le> length noise_pred
       \<and> p = lmap2 (+) (take ((length noise_pred + 1) div 2) noise_pred)
               (lmap (\<lambda>x. g * x)
                  (lmap2 (-) (drop ((length noise_pred + 1) div 2) noise_pred)
                             (take ((length noise_pred + 1) div 2) noise_pred)))"
  using assms
  by (auto simp: guide_def chunk2_def Let_def split: if_splits)


lemma usable_length_guidance [simp]:
  "usable_length self h (a\<lparr>arg_guidance_scale := g\<rparr>) = usable_length self h a"
  by (simp add: usable_length_def)

lemma call_chunks:
  assumes run: "call self h a w = (w', Inr ())"
  obtains c where
    "0 < arg_num_frames a"
    "1 \<le> usable_length self h a div arg_num_frames a"
    "arg_num_frames a * (usable_length self h a div arg_num_frames a) \<le> usable_length self h a"
    "ctx_num_frames c = arg_num_frames a"
    "length (ctx_faces c) = length (read_video h (arg_video_path a))"
    "ctx_whisper_chunks c =
       (if add_audio_layer (unet self)
        then feature2chunks (audio_encoder self)
               (audio2feat (audio_encoder self) (arg_audio_path a)) (arg_video_fps a)
        else [])"
    "ctx_all_latents c =
       map (\<lambda>fs. replicate
                    (nat (arg_num_frames a * (usable_length self h a div arg_num_frames a)))
                    (tmap (\<lambda>x. x * init_noise_sigma (scheduler self)) (hd fs)))
         (randn_values h (rng w) 1 (nat (latent_channels (vae self))) 1
            (nat (default_size self (arg_height a) div vae_scale_factor self))
            (nat (default_size self (arg_width a) div vae_scale_factor self)))"
    "\<forall>k<nat (usable_length self h a div arg_num_frames a). \<exists>w1 w2 out.
        inference self h (ImageProcessor h (arg_height a) (arg_mask a)) c k w1 = (w2, Inr out)"
    "filter is_randn (new_events w w')
       = [EvRandn [1, latent_channels (vae self), 1,
                   default_size self (arg_height a) div vae_scale_factor self,
                   default_size self (arg_width a) div vae_scale_factor self]]"
proof -
  show thesis
  proof (rule call_success[OF run], goal_cases)
  case (1 s wc n all_latents chunks frames es_plan es_chunks es_restore)
  note ip = 1(3) and lf = 1(4) and hh = 1(5) and ww = 1(6) and wc = 1(7) and N = 1(8)
    and n = 1(9) and n1 = 1(10) and al = 1(11) and each = 1(13) and tr = 1(16)
    and ev = 1(17) 1(18) 1(20)
  let ?c = "run_context self a (su_faces s) wc all_latents (su_height s) (su_width s)"
  have nN: "arg_num_frames a * (usable_length self h a div arg_num_frames a)
              \<le> usable_length self h a"
    using div_ge_one_pos(2)[OF _ usable_length_nonneg, of self h a "arg_num_frames a"] n n1
    by simp
  have n1': "1 \<le> usable_length self h a div arg_num_frames a" using n n1 by simp
  have c1: "ctx_num_frames ?c = arg_num_frames a" by simp
  have c2: "length (ctx_faces ?c) = length (read_video h (arg_video_path a))"
    using lf by simp
  have c3: "ctx_whisper_chunks ?c =
       (if add_audio_layer (unet self)
        then feature2chunks (audio_encoder self)
               (audio2feat (audio_encoder self) (arg_audio_path a)) (arg_video_fps a)
        else [])"
    using wc by simp
  have c4: "ctx_all_latents ?c =
       map (\<lambda>fs. replicate
                    (nat (arg_num_frames a * (usable_length self h a div arg_num_frames a)))
                    (tmap (\<lambda>x. x * init_noise_sigma (scheduler self)) (hd fs)))
         (randn_values h (rng w) 1 (nat (latent_channels (vae self))) 1
            (nat (default_size self (arg_height a) div vae_scale_factor self))
            (nat (default_size self (arg_width a) div vae_scale_factor self)))"
    using al n hh ww by simp
  have c5: "\<forall>k<nat (usable_length self h a div arg_num_frames a). \<exists>w1 w2 out.
        inference self h (ImageProcessor h (arg_height a) (arg_mask a)) ?c k w1 = (w2, Inr out)"
    using each ip n by metis
  have nr: "\<And>e. is_setup_event e \<Longrightarrow> \<not> is_randn e"
           "\<And>e. is_plan_event e \<Longrightarrow> \<not> is_randn e"
           "\<And>e. is_inference e \<or> is_callback e \<Longrightarrow> \<not> is_randn e"
           "\<And>e. is_restore_event e \<Longrightarrow> \<not> is_randn e"
    by (case_tac e; simp)+
  have c6: "filter is_randn (new_events w w')
       = [EvRandn [1, latent_channels (vae self), 1,
                   default_size self (arg_height a) div vae_scale_factor self,
                   default_size self (arg_width a) div vae_scale_factor self]]"
    using tr hh ww
      filter_none[OF setup_events_setup nr(1)] filter_none[OF ev(1) nr(2)]
      filter_none[OF ev(2) nr(3)] filter_none[OF ev(3) nr(4)]
    by simp
  show ?case
    by (rule that[of ?c]) fact+
  qed
qed



lemma for_state_chain:
  "for_state f xs s w = (w', Inr s') \<Longrightarrow>
     \<exists>ss vs. length ss = Suc (length xs) \<and> length vs = Suc (length xs)
        \<and> ss ! 0 = s \<and> vs ! 0 = w \<and> ss ! length xs = s' \<and> vs ! length xs = w'
        \<and> (\<forall>j<length xs. f (ss ! j) (xs ! j) (vs ! j) = (vs ! Suc j, Inr (ss ! Suc j)))"
proof (induction xs arbitrary: s w)
  case Nil
  then show ?case
    by (intro exI[of _ "[s]"] exI[of _ "[w]"]) simp
next
  case (Cons x xs)
  from Cons.prems obtain w1 s1 where
    1: "f s x w = (w1, Inr s1)" and 2: "for_state f xs s1 w1 = (w', Inr s')"
    by (auto simp: bind_Inr_iff)
  from Cons.IH[OF 2] obtain ss vs where ih:
    "length ss = Suc (length xs)" "length vs = Suc (length xs)"
    "ss ! 0 = s1" "vs ! 0 = w1" "ss ! length xs = s'" "vs ! length xs = w'"
    "\<forall>j<length xs. f (ss ! j) (xs ! j) (vs ! j) = (vs ! Suc j, Inr (ss ! Suc j))"
    by blast
  have st: "\<forall>j<length (x # xs). f ((s # ss) ! j) ((x # xs) ! j) ((w # vs) ! j)
              = ((w # vs) ! Suc j, Inr ((s # ss) ! Suc j))"
  proof (intro allI impI)
    fix j assume j: "j < length (x # xs)"
    show "f ((s # ss) ! j) ((x # xs) ! j) ((w # vs) ! j)
              = ((w # vs) ! Suc j, Inr ((s # ss) ! Suc j))"
    proof (cases j)
      case 0 then show ?thesis using 1 ih(3,4) by simp
    next
      case (Suc j') then show ?thesis using j ih(7) by simp
    qed
  qed
  show ?case
    by (rule exI[of _ "s # ss"], rule exI[of _ "w # vs"]) (use ih st in simp)
qed


lemma denoise_step_Inr:
  assumes "denoise_step self c ml mil il ae nws latents (j, t) v = (v', Inr latents')"
  shows "\<exists>pred. predict_noise self c ml mil il ae latents t = Inr pred
           \<and> latents' = fst (scheduler_step (scheduler self) pred t latents
                               (fst (ctx_extra_step_kwargs c))
                               (if snd (ctx_extra_step_kwargs c) then Some (rng v) else None))"
proof -
  let ?kw = "ctx_extra_step_kwargs c"
  from assms obtain pred where
    p: "predict_noise self c ml mil il ae latents t = Inr pred" and
    l: "latents' = fst (case scheduler_step (scheduler self) pred t latents (fst ?kw)
                               (if snd ?kw then Some (rng v) else None) of
                          (prev_sample, g') \<Rightarrow>
                            (prev_sample, case g' of None \<Rightarrow> rng v | Some g'' \<Rightarrow> g''))"
    by (auto simp: denoise_step_def bind_Inr_iff with_rng_iff)
  from l have "latents' = fst (scheduler_step (scheduler self) pred t latents (fst ?kw)
                               (if snd ?kw then Some (rng v) else None))"
    by (simp split: prod.splits)
  with p show ?thesis by blast
qed


lemma predict_noise_guided:
  assumes "ctx_do_classifier_free_guidance c"
    and "predict_noise self c ml mil il ae latents t = Inr pred"
  shows "\<exists>x. cat_channels [scale_model_input (scheduler self) (latents @ latents) t, ml, mil, il]
                = Inr x
           \<and> guide (ctx_guidance_scale c) (unet_forward (unet self) x t ae) = Inr pred"
  using assms by (auto simp: predict_noise_def Let_def split: sum.splits)

lemma process_chunk_steps:
  assumes run: "process_chunk self h ip c ae window start w = (w', Inr out)"
    and pm: "prepare_masks_and_masked_images ip window = (pixel_values, masked, masks)"
  obtains ml mil il lats vs va where
    "prepare_mask_latents self h masks masked (ctx_height c) (ctx_width c)
       (ctx_do_classifier_free_guidance c) w = (va, Inr (ml, mil))"
    "prepare_image_latents self pixel_values (ctx_do_classifier_free_guidance c) va
       = (vs ! 0, Inr il)"
    "length lats = Suc (length (ctx_timesteps c))"
    "length vs = Suc (length (ctx_timesteps c))"
    "lats ! 0 = start"
    "vs ! length (ctx_timesteps c) = w'"
    "\<forall>j<length (ctx_timesteps c).
        denoise_step self c ml mil il ae
          (int (length (ctx_timesteps c))
             - ctx_num_inference_steps c * scheduler_order (scheduler self))
          (lats ! j) (j, ctx_timesteps c ! j) (vs ! j) = (vs ! Suc j, Inr (lats ! Suc j))"
    "paste_surrounding_pixels_back h (decode_latents self (lats ! length (ctx_timesteps c)))
       pixel_values (vmap (\<lambda>m. 1 - m) masks) = Inr out"
proof -
  let ?nws = "int (length (ctx_timesteps c))
             - ctx_num_inference_steps c * scheduler_order (scheduler self)"
  from run pm obtain va ml mil vb il lat where
    a: "prepare_mask_latents self h masks masked (ctx_height c) (ctx_width c)
          (ctx_do_classifier_free_guidance c) w = (va, Inr (ml, mil))" and
    b: "prepare_image_latents self pixel_values (ctx_do_classifier_free_guidance c) va
          = (vb, Inr il)" and
    l: "for_state (denoise_step self c ml mil il ae ?nws) (enumerate 0 (ctx_timesteps c)) start vb
          = (w', Inr lat)" and
    p: "paste_surrounding_pixels_back h (decode_latents self lat) pixel_values
          (vmap (\<lambda>m. 1 - m) masks) = Inr out"
    by (auto simp: process_chunk_def bind_Inr_iff Let_def split: prod.splits)
  from for_state_chain[OF l] obtain lats vs where ch:
    "length lats = Suc (length (ctx_timesteps c))" "length vs = Suc (length (ctx_timesteps c))"
    "lats ! 0 = start" "vs ! 0 = vb" "lats ! length (ctx_timesteps c) = lat"
    "vs ! length (ctx_timesteps c) = w'"
    "\<forall>j<length (ctx_timesteps c).
        denoise_step self c ml mil il ae ?nws (lats ! j) (enumerate 0 (ctx_timesteps c) ! j) (vs ! j)
          = (vs ! Suc j, Inr (lats ! Suc j))"
    by auto
  have st: "\<forall>j<length (ctx_timesteps c).
        denoise_step self c ml mil il ae ?nws (lats ! j) (j, ctx_timesteps c ! j) (vs ! j)
          = (vs ! Suc j, Inr (lats ! Suc j))"
    using ch(7) by (simp add: nth_enumerate_eq)
  show thesis
    by (rule that[of va ml mil vs il lats]) (use a b ch p st in simp_all)
qed

lemma inference_process:
  assumes "inference self h ip c i w = (w', Inr out)"
  obtains ae where "chunk_audio_embeds self c i = Inr ae"
    "process_chunk self h ip c ae (chunk_faces c i) (chunk_latents c i) w = (w', Inr out)"
  using assms by (auto simp: inference_def bind_Inr_iff Let_def)


lemma length_aligned_faces [simp]:
  "length (aligned_faces h a) = length (read_video h (arg_video_path a))"
  by (simp add: aligned_faces_def)




lemma paste_frames:
  assumes p: "paste_surrounding_pixels_back h decoded pixel_values masks = Inr out"
    and f: "f < length out"
  obtains a b where
    "tbroadcast2 (*) (frame_of decoded f) (frame_of (vmap (to_weight_dtype h) masks) f) = Inr a"
    "tbroadcast2 (*) (frame_of (vmap (to_weight_dtype h) pixel_values) f)
       (tmap (\<lambda>x. 1 - x) (frame_of (vmap (to_weight_dtype h) masks) f)) = Inr b"
    "tbroadcast2 (+) a b = Inr (out ! f)"
    "(if length masks = 1 then 0 else f) < length masks"
    "(if length pixel_values = 1 then 0 else f) < length pixel_values"
proof -
  show thesis
  proof (rule paste_Inr[OF p], goal_cases)
  case (1 a b)
  let ?m = "vmap (to_weight_dtype h) masks" and ?p = "vmap (to_weight_dtype h) pixel_values"
  note o = vbroadcast2_Inr[OF 1(3)]
  have la: "length a = length out \<or> length a = 1" and lb: "length b = length out \<or> length b = 1"
    using o(1,2) by (auto split: if_splits)
  from o(3) f have of: "tbroadcast2 (+) (frame_of a f) (frame_of b f) = Inr (out ! f)" by simp
  have af: "tbroadcast2 (*) (frame_of decoded f) (frame_of ?m f) = Inr (frame_of a f)"
    by (rule vbroadcast2_frame[OF 1(1) f la])
  have bf0: "tbroadcast2 (*) (frame_of ?p f) (frame_of (vmap (\<lambda>m. 1 - m) ?m) f) = Inr (frame_of b f)"
    by (rule vbroadcast2_frame[OF 1(2) f lb])
  have rng: "(if length ?m = 1 then 0 else f) < length ?m"
    by (rule vbroadcast2_in_range(2)[OF 1(1) f la])
  have rngp: "(if length ?p = 1 then 0 else f) < length ?p"
    by (rule vbroadcast2_in_range(1)[OF 1(2) f lb])
  have bf: "tbroadcast2 (*) (frame_of ?p f) (tmap (\<lambda>x. 1 - x) (frame_of ?m f)) = Inr (frame_of b f)"
    using bf0 frame_of_vmap[OF rng, of "\<lambda>m. 1 - m"] by simp
  show ?case
    by (rule that[OF af bf of]) (use rng rngp in \<open>simp_all add: vmap_def\<close>)
  qed
qed

lemma paste_expands:
  assumes p: "paste_surrounding_pixels_back h decoded pixel_values masks = Inr out"
    and f: "f < length out"
  shows "expands_to (shape (frame_of decoded f)) (shape (out ! f))"
    and "expands_to (shape (frame_of (vmap (to_weight_dtype h) masks) f)) (shape (out ! f))"
    and "expands_to (shape (frame_of (vmap (to_weight_dtype h) pixel_values) f)) (shape (out ! f))"
    and "wf_tensor (out ! f)"
proof -
  have "expands_to (shape (frame_of decoded f)) (shape (out ! f))
      \<and> expands_to (shape (frame_of (vmap (to_weight_dtype h) masks) f)) (shape (out ! f))
      \<and> expands_to (shape (frame_of (vmap (to_weight_dtype h) pixel_values) f)) (shape (out ! f))
      \<and> wf_tensor (out ! f)"
  proof (rule paste_frames[OF p f], goal_cases)
    case (1 a b)
    note xo = broadcast_shapes_expands[OF tbroadcast2_Inr(1)[OF 1(3)]]
    note xa = broadcast_shapes_expands[OF tbroadcast2_Inr(1)[OF 1(1)]]
    note xb = broadcast_shapes_expands[OF tbroadcast2_Inr(1)[OF 1(2)]]
    show ?case
      using expands_to_trans[OF xa(1) xo(1)] expands_to_trans[OF xa(2) xo(1)]
        expands_to_trans[OF xb(1) xo(2)] tbroadcast2_Inr(3)[OF 1(3)]
      by simp
  qed
  then show "expands_to (shape (frame_of decoded f)) (shape (out ! f))"
    and "expands_to (shape (frame_of (vmap (to_weight_dtype h) masks) f)) (shape (out ! f))"
    and "expands_to (shape (frame_of (vmap (to_weight_dtype h) pixel_values) f)) (shape (out ! f))"
    and "wf_tensor (out ! f)"
    by simp_all
qed

lemma paste_zero:
  assumes p: "paste_surrounding_pixels_back h decoded pixel_values masks = Inr out"
    and wf: "wf_video masks"
    and z: "\<forall>m \<in> set (vmap (to_weight_dtype h) masks). \<forall>x \<in> set (vals m). x = 0"
    and f: "f < length out"
    and v: "valid_index (shape (out ! f)) idx"
  shows "tensor_at (out ! f) idx = tensor_at (frame_of (vmap (to_weight_dtype h) pixel_values) f) idx"
proof -
  let ?m = "vmap (to_weight_dtype h) masks"
  have rng: "(if length ?m = 1 then 0 else f) < length ?m"
    by (rule paste_frames[OF p f]) (simp add: vmap_def)
  have wfm: "wf_tensor (frame_of ?m f)"
    by (rule wf_video_frame[OF wf_video_vmap[OF wf] rng])
  have "frame_of ?m f \<in> set ?m" using rng by (simp add: frame_of_def)
  with z have "\<forall>x \<in> set (vals (frame_of ?m f)). x = 0" by blast
  from zero_read[OF wfm paste_expands(2)[OF p f] v this] paste_read[OF p wf f v]
  show ?thesis by simp
qed

lemma paste_identity:
  assumes p: "paste_surrounding_pixels_back h decoded pixel_values masks = Inr out"
    and wf: "wf_video masks"
    and z: "\<forall>m \<in> set (vmap (to_weight_dtype h) masks). \<forall>x \<in> set (vals m). x = 0"
    and wfp: "wf_video (vmap (to_weight_dtype h) pixel_values)"
    and l: "length out = length (vmap (to_weight_dtype h) pixel_values)"
    and s: "\<forall>f<length out. shape (out ! f) = shape (vmap (to_weight_dtype h) pixel_values ! f)"
  shows "out = vmap (to_weight_dtype h) pixel_values"
proof (rule nth_equalityI[OF l])
  let ?p = "vmap (to_weight_dtype h) pixel_values"
  fix f assume f: "f < length out"
  have fo: "frame_of ?p f = ?p ! f" using f l by (auto simp: frame_of_def)
  have wfpf: "wf_tensor (?p ! f)" using wfp f l by (simp add: wf_video_def list_all_length)
  show "out ! f = ?p ! f"
  proof (rule tensor_eqI[OF paste_expands(4)[OF p f] wfpf])
    show "shape (out ! f) = shape (?p ! f)" using s f by simp
  next
    fix idx assume "valid_index (shape (out ! f)) idx"
    from paste_zero[OF p wf z f this] fo show "tensor_at (out ! f) idx = tensor_at (?p ! f) idx"
      by simp
  qed
qed

lemma chunk_audio_embeds_slice:
  assumes "chunk_audio_embeds self c i = Inr ae"
  shows "ae = (if add_audio_layer (unet self)
               then Some ((if ctx_do_classifier_free_guidance c
                           then zeros_like (py_slice (ctx_whisper_chunks c)
                                  (int i * ctx_num_frames c) ((int i + 1) * ctx_num_frames c))
                           else [])
                          @ py_slice (ctx_whisper_chunks c)
                              (int i * ctx_num_frames c) ((int i + 1) * ctx_num_frames c))
               else None)"
  using assms
  by (auto simp: chunk_audio_embeds_def stack_def Let_def split: sum.splits list.splits if_splits)




lemma not_fs:
  "is_setup_event e \<Longrightarrow> \<not> is_fs_event e"
  "is_denoise_event e \<Longrightarrow> \<not> is_fs_event e"
  by (cases e; auto simp: is_denoise_event_def)+

lemma list_all_not_fs:
  "list_all is_setup_event es \<Longrightarrow> list_all (\<lambda>e. \<not> is_fs_event e) es"
  "list_all is_denoise_event es \<Longrightarrow> list_all (\<lambda>e. \<not> is_fs_event e) es"
  using not_fs by (auto simp: list_all_iff)

lemma call_Inl:
  assumes "call self h a w = (w', Inl e)"
  shows "temp_dir w' = temp_dir w
       \<and> (\<exists>es. trace w' = trace w @ es \<and> list_all (\<lambda>e. \<not> is_fs_event e) es)"
proof -
  obtain w1 r1 where su: "call_setup self h a w = (w1, r1)" by (cases "call_setup self h a w")
  from adds_call_setup[of self h a] su obtain es1 where
    1: "temp_dir w1 = temp_dir w" "trace w1 = trace w @ es1" "list_all is_setup_event es1"
    unfolding adds_def by blast
  show ?thesis
  proof (cases r1)
    case (Inl e1)
    with assms su have "w' = w1" by (simp add: call_def bind_eq)
    with 1 list_all_not_fs(1) show ?thesis by blast
  next
    case (Inr s)
    obtain w2 r2 where dn: "call_denoise self h a s w1 = (w2, r2)"
      by (cases "call_denoise self h a s w1")
    from adds_call_denoise[of self h a s] dn obtain es2 where
      2: "temp_dir w2 = temp_dir w1" "trace w2 = trace w1 @ es2" "list_all is_denoise_event es2"
      unfolding adds_def by blast
    have tr: "trace w2 = trace w @ (es1 @ es2)"
      and la: "list_all (\<lambda>e. \<not> is_fs_event e) (es1 @ es2)"
      using 1 2 list_all_not_fs by simp_all
    have "w' = w2"
    proof (cases r2)
      case (Inl e2)
      with assms su Inr dn show ?thesis by (simp add: call_def bind_eq)
    next
      case fr: (Inr frames)
      with assms su Inr dn have
        "write_outputs a frames (su_audio_samples s) (su_is_train s) w2 = (w', Inl e)"
        by (simp add: call_def bind_eq)
      from write_outputs_cases[OF this] show ?thesis by simp
    qed
    with 1 2 tr la show ?thesis by metis
  qed
qed

lemma call_trace_shape:
  assumes run: "call self h a w = (w', Inr ())"
  obtains pre frames where
    "new_events w w' = pre @ (if temp_dir w \<noteq> None then [EvRmtree ''temp''] else [])
        @ [EvMakedirs ''temp'',
           EvWriteVideo ''temp/video.mp4'' (length frames) 25,
           EvWriteAudio ''temp/audio.wav''
             (length (py_slice (read_audio h (arg_audio_path a)) 0
                (py_int (real (length frames) / real_of_int (arg_video_fps a)
                           * real_of_int (arg_audio_sample_rate a)))))
             (arg_audio_sample_rate a),
           EvFfmpeg (arg_video_out_path a)]"
    "list_all (\<lambda>e. \<not> is_fs_event e) pre"
    "EvAffineTransform \<in> set pre"
    "EvReadAudio (arg_audio_path a) \<in> set pre"
    "EvInference 0 \<in> set pre"
    "add_audio_layer (unet self) \<longrightarrow> EvFeature2Chunks (arg_video_fps a) \<in> set pre"
    "written_video w' = Some (VideoFile frames 25)"
    "written_audio w' = Some (AudioFile
        (py_slice (read_audio h (arg_audio_path a)) 0
           (py_int (real (length frames) / real_of_int (arg_video_fps a)
                      * real_of_int (arg_audio_sample_rate a))))
        (arg_audio_sample_rate a))"
proof -
  show thesis
  proof (rule call_success[OF run], goal_cases)
    case (1 s wc n all_latents chunks frames es_plan es_chunks es_restore)
    note lf = 1(4) and N = 1(8) and n = 1(9) and n1 = 1(10) and tr = 1(16)
      and ev = 1(17) 1(18) 1(19) 1(20) and td = 1(21) and pl = 1(22)
    let ?k = "length (read_video h (arg_video_path a))"
    let ?randn = "EvRandn [1, latent_channels (vae self), 1,
                    su_height s div vae_scale_factor self,
                    su_width s div vae_scale_factor self]"
    let ?pre = "setup_events h a ?k
        @ [EvReadAudio (arg_audio_path a), EvSetTimesteps (arg_num_inference_steps a)]
        @ es_plan @ [?randn] @ es_chunks @ es_restore"
    have ne: "new_events w w' = ?pre @ (if temp_dir w \<noteq> None then [EvRmtree ''temp''] else [])
        @ [EvMakedirs ''temp'',
           EvWriteVideo ''temp/video.mp4'' (length frames) 25,
           EvWriteAudio ''temp/audio.wav''
             (length (py_slice (read_audio h (arg_audio_path a)) 0
                (py_int (real (length frames) / real_of_int (arg_video_fps a)
                           * real_of_int (arg_audio_sample_rate a)))))
             (arg_audio_sample_rate a),
           EvFfmpeg (arg_video_out_path a)]"
      using tr by (simp add: new_events_def)
    have d: "\<And>e. is_plan_event e \<Longrightarrow> is_denoise_event e"
            "\<And>e. is_inference e \<or> is_callback e \<Longrightarrow> is_denoise_event e"
            "\<And>e. is_restore_event e \<Longrightarrow> is_denoise_event e"
      by (auto simp: is_denoise_event_def)
    have "list_all is_denoise_event
            ([EvSetTimesteps (arg_num_inference_steps a)] @ es_plan @ [?randn]
               @ es_chunks @ es_restore)"
      using ev(1,2,4) d by (auto simp: list_all_iff is_denoise_event_def)
    then have p2: "list_all (\<lambda>e. \<not> is_fs_event e)
            ([EvSetTimesteps (arg_num_inference_steps a)] @ es_plan @ [?randn]
               @ es_chunks @ es_restore)"
      by (rule list_all_not_fs(2))
    have p1: "list_all (\<lambda>e. \<not> is_fs_event e) (setup_events h a ?k)"
      by (rule list_all_not_fs(1)[OF setup_events_setup])
    have la: "list_all (\<lambda>e. \<not> is_fs_event e) ?pre"
      using p1 p2 by simp
    have "1 \<le> usable_length self h a"
      using div_ge_one_pos(2)[OF _ usable_length_nonneg, of self h a "arg_num_frames a"] n n1 N
      by (smt (verit) mult_le_cancel_left1 mult.commute)
    then have "0 < ?k" by (auto simp: usable_length_def split: if_splits)
    then have af: "EvAffineTransform \<in> set ?pre"
      by (simp add: setup_events_def)
    have ra: "EvReadAudio (arg_audio_path a) \<in> set ?pre" by simp
    have "EvInference 0 \<in> set (map EvInference [0..<nat n])"
      using n1 by auto
    then have "EvInference 0 \<in> set (filter is_inference es_chunks)"
      using ev(3) by simp
    then have inf: "EvInference 0 \<in> set ?pre" by simp
    have fc: "add_audio_layer (unet self) \<longrightarrow> EvFeature2Chunks (arg_video_fps a) \<in> set ?pre"
      using pl by simp
    have wv: "written_video w' = Some (VideoFile frames 25)"
      using td by (simp add: written_video_def)
    have wa: "written_audio w' = Some (AudioFile
        (py_slice (read_audio h (arg_audio_path a)) 0
           (py_int (real (length frames) / real_of_int (arg_video_fps a)
                      * real_of_int (arg_audio_sample_rate a))))
        (arg_audio_sample_rate a))"
      using td by (simp add: written_audio_def)
    show ?case
      by (rule that[of ?pre frames]) fact+
  qed
qed

lemma check_inputs_invalid:
  "invalid_config hh ww cbs \<Longrightarrow>
     check_inputs hh ww cbs = Inl AssertionError \<or> check_inputs hh ww cbs = Inl ValueError"
  by (auto simp: invalid_config_def check_inputs_def dvd_eq_mod_eq_0 split: cb_steps.splits)

lemma check_inputs_valid:
  "\<not> invalid_config hh ww cbs \<Longrightarrow> check_inputs hh ww cbs = Inr ()"
  by (auto simp: invalid_config_def check_inputs_def dvd_eq_mod_eq_0 split: cb_steps.splits)

section \<open>The claims\<close>



text \<open>
  C4. During restoration of a generated face patch of shape \<open>[c, face_h, face_w]\<close>
  into its bounding box, with the mode stored by the run being one of \<^verbatim>\<open>none\<close>,
  \<^verbatim>\<open>GFPGAN\<close> and \<^verbatim>\<open>CodeFormer\<close>, a super-resolution variant is invoked if and only
  if the mode is not \<^verbatim>\<open>none\<close> and the patch is strictly lower or strictly narrower
  than the box. When it is invoked, it is the variant the mode names, with the scale
  factor \<open>max (height / face_h) (width / face_w)\<close>, and the patch that goes on is its
  result; otherwise no variant is invoked and the patch goes on unchanged. The height and
  width of the box are \<^verbatim>\<open>int(y2 - y1)\<close> and \<^verbatim>\<open>int(x2 - x1)\<close>.
\<close>

theorem superres_trigger:
  assumes face: "restore_face h ip video_frames boxes affine_matrices (index, face) w = (w', r)"
    and box: "py_get boxes index = Inr (x1, y1, x2, y2)"
    and shp: "shape face = [c, face_h, face_w]"
    and patch: "0 < face_h" "0 < face_w"
    and mode: "self_superres w = ''none'' \<or> self_superres w = ''GFPGAN''
               \<or> self_superres w = ''CodeFormer''"
  shows "let height = py_int (y2 - y1);
             width = py_int (x2 - x1);
             fires = (self_superres w \<noteq> ''none''
                      \<and> (int face_h < height \<or> int face_w < width));
             scale_factor = max (real_of_int height / real face_h)
                                (real_of_int width / real face_w)
         in filter is_superres (new_events w w')
              = (if fires then [EvSuperRes (self_superres w) scale_factor] else [])
          \<and> snd (superres_step h (self_superres w) face face_h face_w height width w)
              = (if fires
                 then (if self_superres w = ''GFPGAN''
                       then apply_gfpgan_superres h face scale_factor
                       else apply_codeformer_superres h face scale_factor)
                 else Inr face)"
proof -
  let ?height = "py_int (y2 - y1)" and ?width = "py_int (x2 - x1)"
  from restore_face_after_superres[OF face box shp] obtain w1 r1 where
    st: "superres_step h (self_superres w) face face_h face_w ?height ?width w = (w1, r1)" and
    w': "w' = w1 \<or> w' = w1\<lparr>trace := trace w1 @ [EvRestoreImg index]\<rparr>"
    by blast
  let ?fires = "self_superres w \<noteq> ''none'' \<and> (int face_h < ?height \<or> int face_w < ?width)"
  let ?sc = "max (real_of_int ?height / real face_h) (real_of_int ?width / real face_w)"
  note c = superres_step_cases[OF mode patch st]
  have ev: "filter is_superres (new_events w w')
              = (if ?fires then [EvSuperRes (self_superres w) ?sc] else [])"
  proof (cases ?fires)
    case True
    with c have "w1 = w\<lparr>trace := trace w @ [EvSuperRes (self_superres w) ?sc]\<rparr>" by simp
    with w' have "new_events w w' = [EvSuperRes (self_superres w) ?sc]
                \<or> new_events w w' = [EvSuperRes (self_superres w) ?sc, EvRestoreImg index]"
      by (auto simp: new_events_def)
    with True show ?thesis by auto
  next
    case False
    with c have "w1 = w" by simp
    with w' have "new_events w w' = [] \<or> new_events w w' = [EvRestoreImg index]"
      by (auto simp: new_events_def)
    with False show ?thesis by auto
  qed
  have res: "snd (superres_step h (self_superres w) face face_h face_w ?height ?width w)
               = (if ?fires
                  then (if self_superres w = ''GFPGAN''
                        then apply_gfpgan_superres h face ?sc
                        else apply_codeformer_superres h face ?sc)
                  else Inr face)"
  proof -
    from st have r1: "snd (superres_step h (self_superres w) face face_h face_w ?height ?width w)
                        = r1"
      by simp
    show ?thesis
    proof (cases ?fires)
      case True
      with c have "r1 = (if self_superres w = ''GFPGAN''
                        then apply_gfpgan_superres h face ?sc
                        else apply_codeformer_superres h face ?sc)"
        by simp
      with True show ?thesis unfolding r1 by simp
    next
      case False
      with c have "r1 = Inr face" by simp
      with False show ?thesis unfolding r1 by auto
    qed
  qed
  from ev res show ?thesis
    by (simp only: Let_def) 
qed

theorem superres_trigger_witness:
  "filter is_superres
     (new_events (demo_world\<lparr>self_superres := ''GFPGAN''\<rparr>)
        (fst (restore_face (demo_host 1 0) (demo_image_processor 0) [Frame [1, 1, 1] [0]]
                [(0, 0, 2, 2)] [[]] (0, Tensor [1, 1, 1] [0])
                (demo_world\<lparr>self_superres := ''GFPGAN''\<rparr>))))
   = [EvSuperRes ''GFPGAN'' 2]"
proof -
  let ?w = "demo_world\<lparr>self_superres := ''GFPGAN''\<rparr>"
  let ?run = "restore_face (demo_host 1 0) (demo_image_processor 0) [Frame [1, 1, 1] [0]]
                [(0, 0, 2, 2)] [[]] (0, Tensor [1, 1, 1] [0]) ?w"
  have run: "?run = (fst ?run, snd ?run)" by simp
  have box: "py_get [(0, 0, 2, 2) :: box] 0 = Inr (0, 0, 2, 2)"
    by (simp add: py_get_def)
  have shp: "shape (Tensor [1, 1, 1] [0]) = [1, 1, 1]" by simp
  have mode: "self_superres ?w = ''none'' \<or> self_superres ?w = ''GFPGAN''
              \<or> self_superres ?w = ''CodeFormer''"
    by simp
  from superres_trigger[OF run box shp _ _ mode]
  show ?thesis
    by (simp add: Let_def py_int_def)
qed

text \<open>
  C5. The output of a chunk is the composite of the decoded result of the chunk's
  denoising loop (the loop over the timesteps, started from the chunk's window of the
  noise) and the pixel values the image processor returned for the faces of the chunk:
  the unmasked tensor the source passes as \<^verbatim>\<open>pixel_values\<close>, not the masked input.
  With the inpainting mask \<open>1 - masks\<close> and the pixel values converted to the weight
  dtype, every position of every frame of the output is
  \<open>decoded * mask + pixel_values * (1 - mask)\<close>, each operand read under broadcasting.
  When the inpainting mask is zero everywhere, every position of the output is the
  pixel value there, and the output is the tensor of pixel values when it has its shape.
  The masks are taken to hold as many values as their shapes say.
\<close>

theorem chunk_composite:
  assumes run: "inference self h ip c i w = (w', Inr out)"
    and pm: "prepare_masks_and_masked_images ip (chunk_faces c i)
               = (pixel_values, masked_pixel_values, masks)"
    and wf: "wf_video masks"
  shows "\<exists>audio_embeds mask_latents masked_image_latents image_latents va vb latents.
           chunk_audio_embeds self c i = Inr audio_embeds
         \<and> prepare_mask_latents self h masks masked_pixel_values (ctx_height c) (ctx_width c)
              (ctx_do_classifier_free_guidance c) w
             = (va, Inr (mask_latents, masked_image_latents))
         \<and> prepare_image_latents self pixel_values (ctx_do_classifier_free_guidance c) va
             = (vb, Inr image_latents)
         \<and> for_state (denoise_step self c mask_latents masked_image_latents image_latents
                         audio_embeds
                         (int (length (ctx_timesteps c))
                            - ctx_num_inference_steps c * scheduler_order (scheduler self)))
              (enumerate 0 (ctx_timesteps c)) (chunk_latents c i) vb = (w', Inr latents)
         \<and> (let decoded = decode_latents self latents;
                 inpaint = vmap (to_weight_dtype h) (vmap (\<lambda>m. 1 - m) masks);
                 pixels = vmap (to_weight_dtype h) pixel_values
             in (\<forall>f<length out.
                    wf_tensor (out ! f)
                  \<and> expands_to (shape (frame_of decoded f)) (shape (out ! f))
                  \<and> expands_to (shape (frame_of inpaint f)) (shape (out ! f))
                  \<and> expands_to (shape (frame_of pixels f)) (shape (out ! f))
                  \<and> (\<forall>idx. valid_index (shape (out ! f)) idx \<longrightarrow>
                        tensor_at (out ! f) idx
                          = tensor_at (frame_of decoded f) idx * tensor_at (frame_of inpaint f) idx
                            + tensor_at (frame_of pixels f) idx
                              * (1 - tensor_at (frame_of inpaint f) idx)))
              \<and> ((\<forall>m \<in> set inpaint. \<forall>x \<in> set (vals m). x = 0) \<longrightarrow>
                    (\<forall>f<length out. \<forall>idx. valid_index (shape (out ! f)) idx \<longrightarrow>
                        tensor_at (out ! f) idx = tensor_at (frame_of pixels f) idx)
                  \<and> (wf_video pixels \<and> length out = length pixels
                       \<and> (\<forall>f<length out. shape (out ! f) = shape (pixels ! f))
                      \<longrightarrow> out = pixels)))"
proof -
  let ?nws = "int (length (ctx_timesteps c))
                - ctx_num_inference_steps c * scheduler_order (scheduler self)"
  let ?cfg = "ctx_do_classifier_free_guidance c"
  from run pm obtain ae va ml mil vb il lat where
    e: "chunk_audio_embeds self c i = Inr ae" and
    a: "prepare_mask_latents self h masks masked_pixel_values (ctx_height c) (ctx_width c) ?cfg w
          = (va, Inr (ml, mil))" and
    b: "prepare_image_latents self pixel_values ?cfg va = (vb, Inr il)" and
    l: "for_state (denoise_step self c ml mil il ae ?nws) (enumerate 0 (ctx_timesteps c))
          (chunk_latents c i) vb = (w', Inr lat)" and
    p: "paste_surrounding_pixels_back h (decode_latents self lat) pixel_values
          (vmap (\<lambda>m. 1 - m) masks) = Inr out"
    by (auto simp: inference_def process_chunk_def bind_Inr_iff Let_def split: prod.splits)
  let ?I = "vmap (\<lambda>m. 1 - m) masks"
  let ?D = "decode_latents self lat"
  let ?inp = "vmap (to_weight_dtype h) ?I" and ?pix = "vmap (to_weight_dtype h) pixel_values"
  have wfI: "wf_video ?I" by (rule wf_video_vmap[OF wf])
  have pw: "\<forall>f<length out.
                    wf_tensor (out ! f)
                  \<and> expands_to (shape (frame_of ?D f)) (shape (out ! f))
                  \<and> expands_to (shape (frame_of ?inp f)) (shape (out ! f))
                  \<and> expands_to (shape (frame_of ?pix f)) (shape (out ! f))
                  \<and> (\<forall>idx. valid_index (shape (out ! f)) idx \<longrightarrow>
                        tensor_at (out ! f) idx
                          = tensor_at (frame_of ?D f) idx * tensor_at (frame_of ?inp f) idx
                            + tensor_at (frame_of ?pix f) idx
                              * (1 - tensor_at (frame_of ?inp f) idx))"
    using paste_expands[OF p] paste_read[OF p wfI] by blast
  have z1: "\<forall>f<length out. \<forall>idx. valid_index (shape (out ! f)) idx \<longrightarrow>
              tensor_at (out ! f) idx = tensor_at (frame_of ?pix f) idx"
    if "\<forall>m \<in> set ?inp. \<forall>x \<in> set (vals m). x = 0"
    using paste_zero[OF p wfI that] by blast
  have z2: "out = ?pix"
    if "\<forall>m \<in> set ?inp. \<forall>x \<in> set (vals m). x = 0"
      and "wf_video ?pix \<and> length out = length ?pix
             \<and> (\<forall>f<length out. shape (out ! f) = shape (?pix ! f))"
    using paste_identity[OF p wfI that(1)] that(2) by blast
  have body: "(let decoded = ?D; inpaint = ?inp; pixels = ?pix
             in (\<forall>f<length out.
                    wf_tensor (out ! f)
                  \<and> expands_to (shape (frame_of decoded f)) (shape (out ! f))
                  \<and> expands_to (shape (frame_of inpaint f)) (shape (out ! f))
                  \<and> expands_to (shape (frame_of pixels f)) (shape (out ! f))
                  \<and> (\<forall>idx. valid_index (shape (out ! f)) idx \<longrightarrow>
                        tensor_at (out ! f) idx
                          = tensor_at (frame_of decoded f) idx * tensor_at (frame_of inpaint f) idx
                            + tensor_at (frame_of pixels f) idx
                              * (1 - tensor_at (frame_of inpaint f) idx)))
              \<and> ((\<forall>m \<in> set inpaint. \<forall>x \<in> set (vals m). x = 0) \<longrightarrow>
                    (\<forall>f<length out. \<forall>idx. valid_index (shape (out ! f)) idx \<longrightarrow>
                        tensor_at (out ! f) idx = tensor_at (frame_of pixels f) idx)
                  \<and> (wf_video pixels \<and> length out = length pixels
                       \<and> (\<forall>f<length out. shape (out ! f) = shape (pixels ! f))
                      \<longrightarrow> out = pixels)))"
    unfolding Let_def using pw z1 z2 by blast
  show ?thesis
    by (rule exI[of _ ae], rule exI[of _ ml], rule exI[of _ mil], rule exI[of _ il],
        rule exI[of _ va], rule exI[of _ vb], rule exI[of _ lat])
       (use e a b l body in blast)
qed

theorem chunk_composite_witness:
  "tensor_at
     (projr (snd (inference (demo_pipeline False (\<lambda>fps. 0)) (demo_host 2 0)
                    (demo_image_processor 1) demo_ctx 0 demo_world)) ! 1) [0, 0, 0] = 4"
proof -
  let ?P = "demo_pipeline False (\<lambda>fps. 0)" and ?H = "demo_host 2 0"
  let ?run = "inference ?P ?H (demo_image_processor 1) demo_ctx 0 demo_world"
  let ?out = "projr (snd ?run)"
  let ?masks = "[Tensor [1, 1, 1] [1], Tensor [1, 1, 1] [1]]"
  let ?pv = "[Tensor [1, 1, 1] [3], Tensor [1, 1, 1] [4]]"
  have run: "?run = (fst ?run, Inr ?out)"
    by code_simp
  have pm: "prepare_masks_and_masked_images (demo_image_processor 1) (chunk_faces demo_ctx 0)
              = (?pv, ?pv, ?masks)"
    by code_simp
  have wf: "wf_video ?masks" by (simp add: wf_video_def wf_tensor_def)
  have zero: "\<forall>m \<in> set (vmap (to_weight_dtype ?H) (vmap (\<lambda>m. 1 - m) ?masks)).
                \<forall>x \<in> set (vals m). x = 0"
    by (simp add: vmap_def tmap_def demo_host_def)
  have len: "1 < length ?out" by code_simp
  have shp: "valid_index (shape (?out ! 1)) [0, 0, 0]" by code_simp
  have px: "tensor_at (frame_of (vmap (to_weight_dtype ?H) ?pv) 1) [0, 0, 0] = 4"
    by (simp add: vmap_def tmap_def demo_host_def frame_of_def tensor_at_def)
  from chunk_composite[OF run pm wf] zero len shp
  have "tensor_at (?out ! 1) [0, 0, 0]
          = tensor_at (frame_of (vmap (to_weight_dtype ?H) ?pv) 1) [0, 0, 0]"
    unfolding Let_def by blast
  with px show ?thesis by simp
qed

text \<open>
  C5, the claim as worded fails. With a mask of one half everywhere, faces 3 and 4 and a
  decoded result of 0, the chunk's output is 3/2 and 2 (half of the pixel values), while
  the composite over the masked input, half of which is 3/4 and 1, differs.
\<close>

theorem composite_operand_counterexample:
  "snd (inference (demo_pipeline False (\<lambda>fps. 0)) (demo_host 2 0)
          (demo_image_processor (1/2)) demo_ctx 0 demo_world)
     = Inr [Tensor [1, 1, 1] [3/2], Tensor [1, 1, 1] [2]]
   \<and> snd (process_chunk_masked_input (demo_pipeline False (\<lambda>fps. 0)) (demo_host 2 0)
          (demo_image_processor (1/2)) demo_ctx None (chunk_faces demo_ctx 0)
          (chunk_latents demo_ctx 0) demo_world)
     = Inr [Tensor [1, 1, 1] [3/4], Tensor [1, 1, 1] [1]]
   \<and> prepare_masks_and_masked_images (demo_image_processor (1/2)) (chunk_faces demo_ctx 0)
     = ([Tensor [1, 1, 1] [3], Tensor [1, 1, 1] [4]],
        [Tensor [1, 1, 1] [3/2], Tensor [1, 1, 1] [2]],
        [Tensor [1, 1, 1] [1/2], Tensor [1, 1, 1] [1/2]])"
  by code_simp



text \<open>
  C8. In an iteration of the loop over the chunks with audio conditioning and
  classifier-free guidance, the embedding handed to the processing of chunk \<open>i\<close> is
  the zero tensor of the shape of the chunk's embedding slice followed by that slice;
  the slice holds the embeddings \<open>i * N\<close> to \<open>(i + 1) * N - 1\<close>. At every timestep
  of the chunk the denoiser receives the doubled latent and this embedding; of its
  output the first half is recombined as the unconditional prediction and the second
  as the conditional one, and the scheduler's step on the recombination gives the
  latent of the next timestep. The zero embedding and the unconditional half share the
  first place of the batch.
\<close>

theorem null_audio_branch:
  assumes run: "inference self h ip c i w = (w', Inr out)"
    and audio: "add_audio_layer (unet self)"
    and cfg: "ctx_do_classifier_free_guidance c"
  shows "\<exists>real_embeds mask_latents masked_image_latents image_latents lats us.
       real_embeds = py_slice (ctx_whisper_chunks c)
                       (int i * ctx_num_frames c) ((int i + 1) * ctx_num_frames c)
     \<and> (0 < ctx_num_frames c
          \<and> (int i + 1) * ctx_num_frames c \<le> int (length (ctx_whisper_chunks c)) \<longrightarrow>
          real_embeds = map ((!) (ctx_whisper_chunks c))
                          [i * nat (ctx_num_frames c)..<(i + 1) * nat (ctx_num_frames c)])
     \<and> vsame_shape (zeros_like real_embeds) real_embeds
     \<and> (\<forall>z \<in> set (zeros_like real_embeds). \<forall>x \<in> set (vals z). x = 0)
     \<and> process_chunk self h ip c (Some (zeros_like real_embeds @ real_embeds))
          (chunk_faces c i) (chunk_latents c i) w = (w', Inr out)
     \<and> length lats = Suc (length (ctx_timesteps c))
     \<and> length us = Suc (length (ctx_timesteps c))
     \<and> lats ! 0 = chunk_latents c i
     \<and> us ! length (ctx_timesteps c) = w'
     \<and> (\<forall>j<length (ctx_timesteps c). \<exists>latent_model_input.
           cat_channels [scale_model_input (scheduler self) (lats ! j @ lats ! j)
                           (ctx_timesteps c ! j),
                         mask_latents, masked_image_latents, image_latents]
             = Inr latent_model_input
         \<and> (let noise_pred = unet_forward (unet self) latent_model_input (ctx_timesteps c ! j)
                                (Some (zeros_like real_embeds @ real_embeds));
                 k = (length noise_pred + 1) div 2;
                 noise_pred_uncond = take k noise_pred;
                 noise_pred_audio = drop k noise_pred
             in 2 \<le> length noise_pred
              \<and> denoise_step self c mask_latents masked_image_latents image_latents
                   (Some (zeros_like real_embeds @ real_embeds))
                   (int (length (ctx_timesteps c))
                      - ctx_num_inference_steps c * scheduler_order (scheduler self))
                   (lats ! j) (j, ctx_timesteps c ! j) (us ! j)
                  = (us ! Suc j, Inr (lats ! Suc j))
              \<and> lats ! Suc j
                  = fst (scheduler_step (scheduler self)
                           (lmap2 (+) noise_pred_uncond
                              (lmap (\<lambda>x. ctx_guidance_scale c * x)
                                 (lmap2 (-) noise_pred_audio noise_pred_uncond)))
                           (ctx_timesteps c ! j) (lats ! j)
                           (fst (ctx_extra_step_kwargs c))
                           (if snd (ctx_extra_step_kwargs c) then Some (rng (us ! j))
                            else None))))
     \<and> paste_surrounding_pixels_back h (decode_latents self (lats ! length (ctx_timesteps c)))
          (fst (prepare_masks_and_masked_images ip (chunk_faces c i)))
          (vmap (\<lambda>m. 1 - m) (snd (snd (prepare_masks_and_masked_images ip (chunk_faces c i)))))
         = Inr out"
proof -
  let ?re = "py_slice (ctx_whisper_chunks c)
               (int i * ctx_num_frames c) ((int i + 1) * ctx_num_frames c)"
  let ?E = "Some (zeros_like ?re @ ?re)"
  let ?ts = "ctx_timesteps c"
  let ?nws = "int (length ?ts) - ctx_num_inference_steps c * scheduler_order (scheduler self)"
  let ?kw = "ctx_extra_step_kwargs c"
  obtain pv mpv masks where pm:
    "prepare_masks_and_masked_images ip (chunk_faces c i) = (pv, mpv, masks)"
    by (cases "prepare_masks_and_masked_images ip (chunk_faces c i)") auto
  show ?thesis
  proof (rule inference_process[OF run], goal_cases)
    case (1 ae)
    from chunk_audio_embeds_slice[OF 1(1)] audio cfg have ae: "ae = ?E" by simp
    note pc = 1(2)[unfolded ae]
    have sh: "vsame_shape (zeros_like ?re) ?re"
      by (simp add: vsame_shape_def zeros_like_def vmap_def tmap_def same_shape_def
                    list_all2_conv_all_nth)
    have z: "\<forall>z \<in> set (zeros_like ?re). \<forall>x \<in> set (vals z). x = 0"
      by (auto simp: zeros_like_def vmap_def tmap_def)
    have win: "0 < ctx_num_frames c
                \<and> (int i + 1) * ctx_num_frames c \<le> int (length (ctx_whisper_chunks c)) \<longrightarrow>
                ?re = map ((!) (ctx_whisper_chunks c))
                        [i * nat (ctx_num_frames c)..<(i + 1) * nat (ctx_num_frames c)]"
      using chunk_window(1)[of "ctx_num_frames c" i "ctx_whisper_chunks c"] by blast
    show ?case
    proof (rule process_chunk_steps[OF pc pm], goal_cases)
      case (1 ml mil il lats us va)
      note len = 1(3) 1(4) and l0 = 1(5) and ul = 1(6) and steps = 1(7) and paste = 1(8)
      have st: "\<exists>x. cat_channels [scale_model_input (scheduler self) (lats ! j @ lats ! j) (?ts ! j),
                                   ml, mil, il] = Inr x
         \<and> (let noise_pred = unet_forward (unet self) x (?ts ! j) ?E;
                 k = (length noise_pred + 1) div 2;
                 noise_pred_uncond = take k noise_pred;
                 noise_pred_audio = drop k noise_pred
             in 2 \<le> length noise_pred
              \<and> denoise_step self c ml mil il ?E ?nws (lats ! j) (j, ?ts ! j) (us ! j)
                  = (us ! Suc j, Inr (lats ! Suc j))
              \<and> lats ! Suc j
                  = fst (scheduler_step (scheduler self)
                           (lmap2 (+) noise_pred_uncond
                              (lmap (\<lambda>x. ctx_guidance_scale c * x)
                                 (lmap2 (-) noise_pred_audio noise_pred_uncond)))
                           (?ts ! j) (lats ! j) (fst ?kw)
                           (if snd ?kw then Some (rng (us ! j)) else None)))"
        if j: "j < length ?ts" for j
      proof -
        from steps j have ds:
          "denoise_step self c ml mil il ?E ?nws (lats ! j) (j, ?ts ! j) (us ! j)
             = (us ! Suc j, Inr (lats ! Suc j))" by blast
        from denoise_step_Inr[OF ds] obtain pred where
          pn: "predict_noise self c ml mil il ?E (lats ! j) (?ts ! j) = Inr pred" and
          nx: "lats ! Suc j = fst (scheduler_step (scheduler self) pred (?ts ! j) (lats ! j)
                 (fst ?kw) (if snd ?kw then Some (rng (us ! j)) else None))"
          by blast
        from predict_noise_guided[OF cfg pn] obtain x where
          x: "cat_channels [scale_model_input (scheduler self) (lats ! j @ lats ! j) (?ts ! j),
                            ml, mil, il] = Inr x" and
          g: "guide (ctx_guidance_scale c) (unet_forward (unet self) x (?ts ! j) ?E) = Inr pred"
          by blast
        note gh = guide_halves[OF g]
        show ?thesis
          by (rule exI[of _ x]) (use x gh ds nx in \<open>simp add: Let_def\<close>)
      qed
      have paste': "paste_surrounding_pixels_back h (decode_latents self (lats ! length ?ts))
          (fst (prepare_masks_and_masked_images ip (chunk_faces c i)))
          (vmap (\<lambda>m. 1 - m) (snd (snd (prepare_masks_and_masked_images ip (chunk_faces c i)))))
         = Inr out"
        using paste pm by simp
      show ?case
        by (rule exI[of _ ?re], rule exI[of _ ml], rule exI[of _ mil], rule exI[of _ il],
            rule exI[of _ lats], rule exI[of _ us])
           (use win sh z pc len l0 ul st paste' in blast)
    qed
  qed
qed

theorem null_audio_branch_witness:
  "process_chunk (demo_pipeline True (\<lambda>fps. 2)) (demo_host 2 0) (demo_image_processor 1)
     demo_audio_ctx
     (Some [Tensor [1] [0], Tensor [1] [0], Tensor [1] [5], Tensor [1] [6]])
     (chunk_faces demo_audio_ctx 0) (chunk_latents demo_audio_ctx 0) demo_world
   = inference (demo_pipeline True (\<lambda>fps. 2)) (demo_host 2 0) (demo_image_processor 1)
       demo_audio_ctx 0 demo_world"
proof -
  let ?P = "demo_pipeline True (\<lambda>fps. 2)" and ?H = "demo_host 2 0"
  let ?ip = "demo_image_processor 1"
  let ?run = "inference ?P ?H ?ip demo_audio_ctx 0 demo_world"
  have run: "?run = (fst ?run, Inr (projr (snd ?run)))" by code_simp
  have audio: "add_audio_layer (unet ?P)" by (simp add: demo_pipeline_def)
  have cfg: "ctx_do_classifier_free_guidance demo_audio_ctx"
    by (simp add: demo_audio_ctx_def demo_args_def)
  have sl: "py_slice (ctx_whisper_chunks demo_audio_ctx)
              (int 0 * ctx_num_frames demo_audio_ctx) ((int 0 + 1) * ctx_num_frames demo_audio_ctx)
            = [Tensor [1] [5], Tensor [1] [6]]"
    by code_simp
  have zl: "zeros_like [Tensor [1] [5], Tensor [1] [6]] @ [Tensor [1] [5], Tensor [1] [6]]
              = [Tensor [1] [0], Tensor [1] [0], Tensor [1] [5], Tensor [1] [6]]"
    by (simp add: zeros_like_def vmap_def tmap_def)
  from null_audio_branch[OF run audio cfg] obtain re where
    "re = py_slice (ctx_whisper_chunks demo_audio_ctx)
            (int 0 * ctx_num_frames demo_audio_ctx) ((int 0 + 1) * ctx_num_frames demo_audio_ctx)"
    "process_chunk ?P ?H ?ip demo_audio_ctx (Some (zeros_like re @ re))
       (chunk_faces demo_audio_ctx 0) (chunk_latents demo_audio_ctx 0) demo_world
     = (fst ?run, Inr (projr (snd ?run)))"
    by blast
  with sl zl run show ?thesis by simp
qed

text \<open>
  C3. A call with an invalid configuration (height and width different, or one of them
  not divisible by 8, or \<^verbatim>\<open>callback_steps\<close> not a positive integer; height and width
  after their defaults) raises and produces no output: the temporary directory is as it
  was, and the effects of the run are those of its first part only, so no timestep is
  set, no audio feature computed, no noise drawn, no chunk denoised, nothing written
  and the encoder not called. The check of the inputs comes after the check for the
  encoder, the construction of the image processor, the face alignment of every frame
  of the input video and the reading of the audio: when the run raises the
  AssertionError or the ValueError of the check, all of these have been done. An
  earlier step that fails raises its own error first.
\<close>

theorem invalid_configuration_raises:
  assumes inv: "invalid_config (default_size self (arg_height a))
                  (default_size self (arg_width a)) (arg_callback_steps a)"
    and run: "call self h a w = (w', r)"
  shows "(\<exists>e. r = Inl e)
       \<and> temp_dir w' = temp_dir w
       \<and> list_all is_setup_event (new_events w w')
       \<and> (r = Inl AssertionError \<or> r = Inl ValueError \<longrightarrow>
            new_events w w'
              = [EvCheckFfmpeg, EvImageProcessor (arg_height a) (arg_mask a),
                 EvReadVideo (arg_video_path a)]
                @ replicate (length (read_video h (arg_video_path a))) EvAffineTransform
                @ [EvReadAudio (arg_audio_path a)])
       \<and> (r \<noteq> Inl AssertionError \<and> r \<noteq> Inl ValueError \<longrightarrow>
            r = Inl FileNotFoundError \<or> r = Inl CollaboratorError \<or> r = Inl RuntimeError)"
proof -
  let ?k = "length (read_video h (arg_video_path a))"
  obtain w1 r1 where su: "call_setup self h a w = (w1, r1)" by (cases "call_setup self h a w")
  note ci = check_inputs_invalid[OF inv]
  from call_setup_cases[OF su] ci have
    td: "temp_dir w1 = temp_dir w" and
    cs: "(r1 = Inl FileNotFoundError \<and> trace w1 = trace w @ [EvCheckFfmpeg])
       \<or> (r1 = Inl CollaboratorError \<and> (\<exists>k\<le>?k. trace w1 = trace w @ setup_events h a k))
       \<or> (r1 = Inl RuntimeError \<and> trace w1 = trace w @ setup_events h a ?k)
       \<or> ((r1 = Inl AssertionError \<or> r1 = Inl ValueError)
           \<and> trace w1 = trace w @ setup_events h a ?k @ [EvReadAudio (arg_audio_path a)])"
    by auto
  from cs obtain e1 where e1: "r1 = Inl e1" by blast
  with run su have w': "w' = w1" and r: "r = Inl e1"
    by (simp_all add: call_def bind_eq)
  from adds_call_setup[of self h a] su obtain es where
    es: "trace w1 = trace w @ es" "list_all is_setup_event es"
    unfolding adds_def by blast
  have 1: "\<exists>e. r = Inl e" using r by simp
  have 2: "temp_dir w' = temp_dir w" using td w' by simp
  have 3: "list_all is_setup_event (new_events w w')" using es w' by simp
  have 4: "r = Inl AssertionError \<or> r = Inl ValueError \<longrightarrow>
            new_events w w'
              = [EvCheckFfmpeg, EvImageProcessor (arg_height a) (arg_mask a),
                 EvReadVideo (arg_video_path a)]
                @ replicate ?k EvAffineTransform @ [EvReadAudio (arg_audio_path a)]"
    using cs r e1 w' by (auto simp: setup_events_def)
  have 5: "r \<noteq> Inl AssertionError \<and> r \<noteq> Inl ValueError \<longrightarrow>
            r = Inl FileNotFoundError \<or> r = Inl CollaboratorError \<or> r = Inl RuntimeError"
    using cs r e1 by auto
  from 1 2 3 4 5 show ?thesis by (intro conjI)
qed

theorem invalid_configuration_raises_witness:
  "snd (call (demo_pipeline False (\<lambda>fps. 0)) (demo_host 5 100)
          ((demo_args 2 1 10 1.5)\<lparr>arg_height := Some 12, arg_width := Some 12\<rparr>) demo_world)
     = Inl ValueError
   \<and> new_events demo_world
       (fst (call (demo_pipeline False (\<lambda>fps. 0)) (demo_host 5 100)
               ((demo_args 2 1 10 1.5)\<lparr>arg_height := Some 12, arg_width := Some 12\<rparr>)
               demo_world))
     = [EvCheckFfmpeg, EvImageProcessor (Some 12) ''fix_mask'', EvReadVideo ''in.mp4'',
        EvAffineTransform, EvAffineTransform, EvAffineTransform, EvAffineTransform,
        EvAffineTransform, EvReadAudio ''in.wav'']"
proof -
  let ?P = "demo_pipeline False (\<lambda>fps. 0)" and ?H = "demo_host 5 100"
  let ?A = "(demo_args 2 1 10 1.5)\<lparr>arg_height := Some 12, arg_width := Some 12\<rparr>"
  let ?c = "call ?P ?H ?A demo_world"
  have inv: "invalid_config (default_size ?P (arg_height ?A)) (default_size ?P (arg_width ?A))
               (arg_callback_steps ?A)"
    by (simp add: invalid_config_def default_size_def py_or_def demo_args_def)
  have r: "snd ?c = Inl ValueError" by code_simp
  have run: "?c = (fst ?c, snd ?c)" by simp
  have ev: "[EvCheckFfmpeg, EvImageProcessor (arg_height ?A) (arg_mask ?A),
             EvReadVideo (arg_video_path ?A)]
            @ replicate (length (read_video ?H (arg_video_path ?A))) EvAffineTransform
            @ [EvReadAudio (arg_audio_path ?A)]
          = [EvCheckFfmpeg, EvImageProcessor (Some 12) ''fix_mask'', EvReadVideo ''in.mp4'',
             EvAffineTransform, EvAffineTransform, EvAffineTransform, EvAffineTransform,
             EvAffineTransform, EvReadAudio ''in.wav'']"
    by code_simp
  from invalid_configuration_raises[OF inv run] r
  have "new_events demo_world (fst ?c)
          = [EvCheckFfmpeg, EvImageProcessor (arg_height ?A) (arg_mask ?A),
             EvReadVideo (arg_video_path ?A)]
            @ replicate (length (read_video ?H (arg_video_path ?A))) EvAffineTransform
            @ [EvReadAudio (arg_audio_path ?A)]"
    by blast
  also note ev
  finally show ?thesis using r by (intro conjI)
qed

text \<open>
  C3, the claim as worded fails. With a height of 12 and a width of 16 the run raises the
  AssertionError of the check only after it has aligned the faces of the three frames
  of the video and read the audio.
\<close>

theorem fail_fast_counterexample:
  "call (demo_pipeline False (\<lambda>fps. 0)) (demo_host 3 100)
     ((demo_args 2 1 10 1.5)\<lparr>arg_height := Some 12, arg_width := Some 16\<rparr>) demo_world
   = (demo_world\<lparr>trace :=
         [EvCheckFfmpeg, EvImageProcessor (Some 12) ''fix_mask'', EvReadVideo ''in.mp4'',
          EvAffineTransform, EvAffineTransform, EvAffineTransform, EvReadAudio ''in.wav'']\<rparr>,
      Inl AssertionError)"
  by code_simp

text \<open>
  C9. The temporary directory is removed, if it exists, and made again once, at the end
  of a run that returns: after the face alignment, the reading of the audio, the loop
  over the chunks and the restoration, none of which touches the file system, and
  right before the two intermediate files are written and the encoder is run. The
  directory is not removed afterwards: it holds the two files when the run returns. A
  run that raises performs no effect on the file system and leaves the directory, with
  whatever an earlier run left in it, as it was.
\<close>

theorem temp_dir_lifecycle:
  assumes run: "call self h a w = (w', r)"
  shows "(r = Inr () \<longrightarrow>
           (\<exists>pre frames n_audio.
               new_events w w'
                 = pre @ (if temp_dir w \<noteq> None then [EvRmtree ''temp''] else [])
                   @ [EvMakedirs ''temp'',
                      EvWriteVideo ''temp/video.mp4'' (length frames) 25,
                      EvWriteAudio ''temp/audio.wav'' n_audio (arg_audio_sample_rate a),
                      EvFfmpeg (arg_video_out_path a)]
             \<and> list_all (\<lambda>e. \<not> is_fs_event e) pre
             \<and> EvAffineTransform \<in> set pre
             \<and> EvReadAudio (arg_audio_path a) \<in> set pre
             \<and> EvInference 0 \<in> set pre
             \<and> temp_dir w' \<noteq> None
             \<and> written_video w' = Some (VideoFile frames 25)
             \<and> written_audio w' \<noteq> None))
       \<and> (r \<noteq> Inr () \<longrightarrow>
             temp_dir w' = temp_dir w
           \<and> list_all (\<lambda>e. \<not> is_fs_event e) (new_events w w'))"
proof (intro conjI impI)
  assume r: "r = Inr ()"
  with run have run': "call self h a w = (w', Inr ())" by simp
  show "\<exists>pre frames n_audio.
               new_events w w'
                 = pre @ (if temp_dir w \<noteq> None then [EvRmtree ''temp''] else [])
                   @ [EvMakedirs ''temp'',
                      EvWriteVideo ''temp/video.mp4'' (length frames) 25,
                      EvWriteAudio ''temp/audio.wav'' n_audio (arg_audio_sample_rate a),
                      EvFfmpeg (arg_video_out_path a)]
             \<and> list_all (\<lambda>e. \<not> is_fs_event e) pre
             \<and> EvAffineTransform \<in> set pre
             \<and> EvReadAudio (arg_audio_path a) \<in> set pre
             \<and> EvInference 0 \<in> set pre
             \<and> temp_dir w' \<noteq> None
             \<and> written_video w' = Some (VideoFile frames 25)
             \<and> written_audio w' \<noteq> None"
  proof (rule call_trace_shape[OF run'], goal_cases)
    case (1 pre frames)
    from 1(7) have td: "temp_dir w' \<noteq> None"
      by (auto simp: written_video_def split: option.splits)
    from 1(8) have wa: "written_audio w' \<noteq> None" by simp
    show ?case
      by (rule exI[of _ pre], rule exI[of _ frames],
          rule exI[of _ "length (py_slice (read_audio h (arg_audio_path a)) 0
                (py_int (real (length frames) / real_of_int (arg_video_fps a)
                           * real_of_int (arg_audio_sample_rate a))))"])
         (use 1(1,2,3,4,5,7) td wa in blast)
  qed
next
  assume "r \<noteq> Inr ()"
  then obtain e where "r = Inl e" by (cases r) auto
  with run have "call self h a w = (w', Inl e)" by simp
  from call_Inl[OF this] show "temp_dir w' = temp_dir w"
    and "list_all (\<lambda>e. \<not> is_fs_event e) (new_events w w')"
    by auto
qed

theorem temp_dir_lifecycle_witness:
  "temp_dir (fst (call (demo_pipeline False (\<lambda>fps. 0)) (demo_host 2 100) (demo_args 2 1 10 1)
                    (demo_world\<lparr>temp_dir := Some [(''stale.txt'', AudioFile [] 0)]\<rparr>))) \<noteq> None
   \<and> temp_dir (fst (call (demo_pipeline False (\<lambda>fps. 0)) (demo_host 1 100) (demo_args 2 1 10 1)
                    (demo_world\<lparr>temp_dir := Some [(''stale.txt'', AudioFile [] 0)]\<rparr>)))
       = Some [(''stale.txt'', AudioFile [] 0)]"
proof -
  let ?P = "demo_pipeline False (\<lambda>fps. 0)" and ?A = "demo_args 2 1 10 1"
  let ?w = "demo_world\<lparr>temp_dir := Some [(''stale.txt'', AudioFile [] 0)]\<rparr>"
  let ?c1 = "call ?P (demo_host 2 100) ?A ?w" and ?c2 = "call ?P (demo_host 1 100) ?A ?w"
  have r1: "?c1 = (fst ?c1, Inr ())" by code_simp
  have r2: "?c2 = (fst ?c2, Inl RuntimeError)" by code_simp
  have td: "temp_dir ?w = Some [(''stale.txt'', AudioFile [] 0)]" by simp
  from temp_dir_lifecycle[OF r1] have 1: "temp_dir (fst ?c1) \<noteq> None" by blast
  from temp_dir_lifecycle[OF r2] have "temp_dir (fst ?c2) = temp_dir ?w" by blast
  with td have 2: "temp_dir (fst ?c2) = Some [(''stale.txt'', AudioFile [] 0)]" by simp
  from 1 2 show ?thesis by (intro conjI)
qed

text \<open>
  C9, the claim as worded fails. In a run that starts with a temporary directory left by
  an earlier run, the directory is removed and made again after the face alignment,
  the reading of the audio, the denoising and the restoration, not at the start.
\<close>

theorem temp_dir_at_start_counterexample:
  "new_events (demo_world\<lparr>temp_dir := Some [(''stale.txt'', AudioFile [] 0)]\<rparr>)
     (fst (call (demo_pipeline False (\<lambda>fps. 0)) (demo_host 2 100) (demo_args 2 1 10 1)
             (demo_world\<lparr>temp_dir := Some [(''stale.txt'', AudioFile [] 0)]\<rparr>)))
   = [EvCheckFfmpeg, EvImageProcessor None ''fix_mask'', EvReadVideo ''in.mp4'',
      EvAffineTransform, EvAffineTransform, EvReadAudio ''in.wav'',
      EvSetTimesteps 2, EvRandn [1, 1, 1, 1, 1], EvInference 0, EvRestoreImg 0,
      EvRestoreImg 1, EvRmtree ''temp'', EvMakedirs ''temp'',
      EvWriteVideo ''temp/video.mp4'' 2 25,
      EvWriteAudio ''temp/audio.wav'' 20 10, EvFfmpeg ''out.mp4'']"
  by code_simp




end
